theory Spec2Isabelle
  imports Main "HOL-Library.Sublist"
begin

section \<open>Strings of the Go standard library\<close>

text \<open>
  \<^verbatim>\<open>strings.HasSuffix(s, suffix)\<close> is
  \<^verbatim>\<open>len(s) >= len(suffix) && s[len(s)-len(suffix):] == suffix\<close>, and
  \<^verbatim>\<open>strings.TrimSuffix\<close> cuts the suffix off when \<^verbatim>\<open>HasSuffix\<close> holds and returns
  the string unchanged otherwise. Strings are byte sequences.
\<close>

definition HasSuffix :: "string \<Rightarrow> string \<Rightarrow> bool" where
  "HasSuffix s suf = (length suf \<le> length s \<and> drop (length s - length suf) s = suf)"

definition TrimSuffix :: "string \<Rightarrow> string \<Rightarrow> string" where
  "TrimSuffix s suf = (if HasSuffix s suf then take (length s - length suf) s else s)"

text \<open>
  \<^verbatim>\<open>strings.EqualFold\<close> compares under Unicode simple case folding. It walks the two
  strings byte by byte while both bytes are ASCII (below \<^verbatim>\<open>utf8.RuneSelf\<close>, 128): equal
  bytes pass, and so do an upper-case letter and its lower-case letter; any other pair of
  ASCII bytes ends the comparison with false; when one string is exhausted the result is
  whether both are. At the first byte that is not ASCII in either string, the rest of
  both strings goes to the rune-by-rune comparison, which decodes UTF-8 and consults the
  folding orbits of the Unicode tables; that comparison is the parameter
  \<open>unicodeEqualFold\<close>.
\<close>

fun EqualFold :: "(string \<Rightarrow> string \<Rightarrow> bool) \<Rightarrow> string \<Rightarrow> string \<Rightarrow> bool" where
  "EqualFold unicodeEqualFold (sr # s) (tr # t) =
     (if \<not> ((of_char sr :: nat) < 128 \<and> (of_char tr :: nat) < 128)
      then unicodeEqualFold (sr # s) (tr # t)
      else if tr = sr then EqualFold unicodeEqualFold s t
      else
        (let lo = min (of_char sr :: nat) (of_char tr);
             hi = max (of_char sr :: nat) (of_char tr)
         in if 65 \<le> lo \<and> lo \<le> 90 \<and> hi = lo + 32
            then EqualFold unicodeEqualFold s t
            else False))"
| "EqualFold unicodeEqualFold s t = (length s = length t)"

text \<open>Indexing a Go \<^verbatim>\<open>map[string]string\<close>: a missing key (or a nil map) reads as \<^verbatim>\<open>""\<close>.\<close>

definition mapIndex :: "(string \<rightharpoonup> string) \<Rightarrow> string \<Rightarrow> string" where
  "mapIndex m key = (case m key of None \<Rightarrow> [] | Some v \<Rightarrow> v)"

section \<open>Constants of the controller\<close>

text \<open>
  The package \<^verbatim>\<open>pkg/constants\<close> is not part of the sources at hand, so the functions below
  take the constants they read as a parameter.
\<close>

record constants =
  ImportFinalizer :: string
  CreatedViaAnnotation :: string
  CreatedViaDiscovery :: string
  CreatedViaAI :: string
  CreatedViaHive :: string
  AutoImportSecretName :: string
  ImportSecretNameSuffix :: string
  KlusterletWorksLabel :: string
  HostedKlusterletManifestworkSuffix :: string
  HostedManagedKubeconfigManifestworkSuffix :: string
  KlusterletDeployModeAnnotation :: string
  KlusterletDeployModeHosted :: string

text \<open>
  Modelled from the spec: the values of \<^verbatim>\<open>pkg/constants\<close> are missing from the sources.
  The specification's hosted-suffix examples name the two work-object suffixes
  \<^verbatim>\<open>klusterlet\<close> and \<^verbatim>\<open>kubeconfig\<close>, the import payload secret \<^verbatim>\<open>c1-import\<close> and the
  finalizer \<^verbatim>\<open>legacy-import\<close>; the remaining fields are sample values. The record is used
  only where a concrete input is evaluated.
\<close>

definition specConstants :: constants where
  "specConstants =
     \<lparr> ImportFinalizer = ''legacy-import'',
       CreatedViaAnnotation = ''open-cluster-management/created-via'',
       CreatedViaDiscovery = ''discovery'',
       CreatedViaAI = ''assisted-installer'',
       CreatedViaHive = ''hive'',
       AutoImportSecretName = ''auto-import-secret'',
       ImportSecretNameSuffix = ''import'',
       KlusterletWorksLabel = ''import.open-cluster-management.io/klusterlet-works'',
       HostedKlusterletManifestworkSuffix = ''klusterlet'',
       HostedManagedKubeconfigManifestworkSuffix = ''kubeconfig'',
       KlusterletDeployModeAnnotation = ''import.open-cluster-management.io/klusterlet-deploy-mode'',
       KlusterletDeployModeHosted = ''Hosted'' \<rparr>"

section \<open>Objects of the store\<close>

text \<open>
  A \<^verbatim>\<open>metav1.Time\<close> pointer is \<open>None\<close> when nil and \<open>Some t\<close> otherwise, with \<open>t = 0\<close> the
  zero instant; \<^verbatim>\<open>IsZero\<close> holds of both the nil pointer and the zero instant.
\<close>

definition IsZero :: "nat option \<Rightarrow> bool" where
  "IsZero t = (case t of None \<Rightarrow> True | Some v \<Rightarrow> v = 0)"

record ObjectMeta =
  Name :: string
  Namespace :: string
  Annotations :: "string \<rightharpoonup> string"
  Labels :: "string \<rightharpoonup> string"
  Finalizers :: "string list"
  DeletionTimestamp :: "nat option"

text \<open>
  A secret's \<^verbatim>\<open>Data\<close> is a \<^verbatim>\<open>map[string][]byte\<close>. \<^verbatim>\<open>equality.Semantic.DeepEqual\<close> identifies
  a nil map with an empty one and a nil slice with an empty one, which is equality of the
  maps below.
\<close>

record Secret = ObjectMeta +
  Data :: "string \<rightharpoonup> string"

text \<open>The field \<^verbatim>\<open>Spec.Workload.Manifests\<close>: the raw bytes of each rendered manifest.\<close>

record ManifestWork = ObjectMeta +
  Manifests :: "string list"

type_synonym ManagedCluster = ObjectMeta

datatype Object =
    SecretObj Secret
  | ManifestWorkObj ManifestWork
  | ManagedClusterObj ManagedCluster

fun GetName :: "Object \<Rightarrow> string" where
  "GetName (SecretObj s) = Name s"
| "GetName (ManifestWorkObj w) = Name w"
| "GetName (ManagedClusterObj c) = Name c"

fun GetNamespace :: "Object \<Rightarrow> string" where
  "GetNamespace (SecretObj s) = Namespace s"
| "GetNamespace (ManifestWorkObj w) = Namespace w"
| "GetNamespace (ManagedClusterObj c) = Namespace c"

fun GetAnnotations :: "Object \<Rightarrow> (string \<rightharpoonup> string)" where
  "GetAnnotations (SecretObj s) = Annotations s"
| "GetAnnotations (ManifestWorkObj w) = Annotations w"
| "GetAnnotations (ManagedClusterObj c) = Annotations c"

section \<open>The event router of the hosted controller\<close>

datatype Event =
    GenericEvent Object
  | CreateEvent Object
  | DeleteEvent Object
  | UpdateEvent Object Object

record Request =
  RequestNamespace :: string
  RequestName :: string

text \<open>
  Modelled from the spec: \<^verbatim>\<open>helpers.ManifestsEqual\<close> is missing from the sources; the
  specification speaks of the rendered manifest contents being changed, which is
  inequality of the two manifest lists.
\<close>

definition ManifestsEqual :: "string list \<Rightarrow> string list \<Rightarrow> bool" where
  "ManifestsEqual new old = (new = old)"

definition isHostedModeObject :: "(string \<Rightarrow> string \<Rightarrow> bool) \<Rightarrow> constants \<Rightarrow> Object \<Rightarrow> bool" where
  "isHostedModeObject unicodeEqualFold k obj =
     EqualFold unicodeEqualFold
       (mapIndex (GetAnnotations obj) (KlusterletDeployModeAnnotation k))
       (KlusterletDeployModeHosted k)"

text \<open>The \<^verbatim>\<open>MapFunc\<close> of the hosted work source.\<close>

definition hostedWorkMapFunc :: "constants \<Rightarrow> Object \<Rightarrow> Request" where
  "hostedWorkMapFunc k obj =
     (let managedClusterName = GetNamespace obj;
          workName = GetName obj;
          managedClusterName =
            (if HasSuffix workName (HostedKlusterletManifestworkSuffix k)
             then TrimSuffix workName (''-'' @ HostedKlusterletManifestworkSuffix k)
             else managedClusterName);
          managedClusterName =
            (if HasSuffix workName (HostedManagedKubeconfigManifestworkSuffix k)
             then TrimSuffix workName (''-'' @ HostedManagedKubeconfigManifestworkSuffix k)
             else managedClusterName)
      in \<lparr> RequestNamespace = managedClusterName, RequestName = managedClusterName \<rparr>)"

text \<open>The predicate of the hosted work source; the type assertions are the case split.\<close>

fun hostedWorkPredicate :: "constants \<Rightarrow> Event \<Rightarrow> bool" where
  "hostedWorkPredicate k (GenericEvent obj) = False"
| "hostedWorkPredicate k (CreateEvent obj) = True"
| "hostedWorkPredicate k (DeleteEvent obj) = True"
| "hostedWorkPredicate k (UpdateEvent objectOld objectNew) =
     (let workName = GetName objectNew in
      if \<not> HasSuffix workName (HostedKlusterletManifestworkSuffix k) \<or>
         \<not> HasSuffix workName (HostedManagedKubeconfigManifestworkSuffix k)
      then False
      else (case (objectNew, objectOld) of
              (ManifestWorkObj new, ManifestWorkObj old) \<Rightarrow>
                \<not> ManifestsEqual (Manifests new) (Manifests old)
            | _ \<Rightarrow> False))"

text \<open>The predicate of the managed cluster watch.\<close>

fun managedClusterPredicate :: "(string \<Rightarrow> string \<Rightarrow> bool) \<Rightarrow> constants \<Rightarrow> Event \<Rightarrow> bool" where
  "managedClusterPredicate uni k (GenericEvent obj) = isHostedModeObject uni k obj"
| "managedClusterPredicate uni k (DeleteEvent obj) = isHostedModeObject uni k obj"
| "managedClusterPredicate uni k (CreateEvent obj) = isHostedModeObject uni k obj"
| "managedClusterPredicate uni k (UpdateEvent objectOld objectNew) =
     isHostedModeObject uni k objectNew"

text \<open>The update filter shared, word for word, by the two secret sources.\<close>

definition secretUpdateFunc :: "Object \<Rightarrow> Object \<Rightarrow> bool" where
  "secretUpdateFunc objectOld objectNew =
     (case (objectNew, objectOld) of
        (SecretObj new, SecretObj old) \<Rightarrow> \<not> (Data old = Data new)
      | _ \<Rightarrow> False)"

text \<open>The predicate of the import secret source.\<close>

fun importSecretPredicate :: "(string \<Rightarrow> string \<Rightarrow> bool) \<Rightarrow> constants \<Rightarrow> Event \<Rightarrow> bool" where
  "importSecretPredicate uni k (GenericEvent obj) = False"
| "importSecretPredicate uni k (DeleteEvent obj) = False"
| "importSecretPredicate uni k (CreateEvent obj) = isHostedModeObject uni k obj"
| "importSecretPredicate uni k (UpdateEvent objectOld objectNew) =
     secretUpdateFunc objectOld objectNew"

text \<open>The predicate of the auto-import secret source.\<close>

fun autoImportSecretPredicate :: "Event \<Rightarrow> bool" where
  "autoImportSecretPredicate (GenericEvent obj) = False"
| "autoImportSecretPredicate (DeleteEvent obj) = False"
| "autoImportSecretPredicate (CreateEvent obj) = True"
| "autoImportSecretPredicate (UpdateEvent objectOld objectNew) = secretUpdateFunc objectOld objectNew"

text \<open>
  Modelled from the spec: \<^verbatim>\<open>source.ManagedClusterResourceEventHandler\<close> is missing from the
  sources. By the specification a secret change is keyed by the secret's namespace, the
  handler given no \<^verbatim>\<open>MapFunc\<close> of its own; an update is keyed by its new object; and a
  key is routed only for an event that its source's predicate lets through.
\<close>

definition defaultMapFunc :: "Object \<Rightarrow> Request" where
  "defaultMapFunc obj = \<lparr> RequestNamespace = GetNamespace obj, RequestName = GetNamespace obj \<rparr>"

text \<open>
  Modelled from the spec: the object that the missing handler keys, the new object of an
  update and the object of every other event.
\<close>

fun eventObject :: "Event \<Rightarrow> Object" where
  "eventObject (GenericEvent obj) = obj"
| "eventObject (CreateEvent obj) = obj"
| "eventObject (DeleteEvent obj) = obj"
| "eventObject (UpdateEvent objectOld objectNew) = objectNew"

text \<open>
  Modelled from the spec: the router as the specification exposes it, from an event to
  at most one key; the watch layer that composes predicate and handler is not part of
  the sources.
\<close>

definition route :: "(Event \<Rightarrow> bool) \<Rightarrow> (Object \<Rightarrow> Request) \<Rightarrow> Event \<Rightarrow> Request option" where
  "route predicate mapFunc e = (if predicate e then Some (mapFunc (eventObject e)) else None)"

text \<open>
  \<^verbatim>\<open>handler.EnqueueRequestForObject\<close> of controller-runtime keys an object by its own
  namespace and name.
\<close>

definition EnqueueRequestForObject :: "Object \<Rightarrow> Request" where
  "EnqueueRequestForObject obj = \<lparr> RequestNamespace = GetNamespace obj, RequestName = GetName obj \<rparr>"

text \<open>
  The four watches that \<^verbatim>\<open>Add\<close> registers, and no other: each source with its handler
  and its predicate.
\<close>

datatype Source =
    HostedWorkSource
  | ManagedClusterKind
  | ImportSecretSource
  | AutoImportSecretSource

fun Add :: "(string \<Rightarrow> string \<Rightarrow> bool) \<Rightarrow> constants \<Rightarrow> Source \<Rightarrow> Event \<Rightarrow> Request option" where
  "Add uni k HostedWorkSource = route (hostedWorkPredicate k) (hostedWorkMapFunc k)"
| "Add uni k ManagedClusterKind = route (managedClusterPredicate uni k) EnqueueRequestForObject"
| "Add uni k ImportSecretSource = route (importSecretPredicate uni k) defaultMapFunc"
| "Add uni k AutoImportSecretSource = route autoImportSecretPredicate defaultMapFunc"




section \<open>Errors, results and the collaborators of the reconciler\<close>

text \<open>
  An error returned by a collaborator carries what the reconciler reads of it: whether
  \<^verbatim>\<open>errors.IsNotFound\<close> holds of it, and the text of \<^verbatim>\<open>err.Error()\<close>.
\<close>

datatype apiError = ApiError (IsNotFound: bool) (ErrorText: string)

datatype error = Plain apiError | Aggregate "apiError list"

text \<open>\<^verbatim>\<open>utilerrors.NewAggregate\<close>: nil for the empty list, the aggregate of the errors otherwise.\<close>

definition NewAggregate :: "apiError list \<Rightarrow> error option" where
  "NewAggregate errlist = (if errlist = [] then None else Some (Aggregate errlist))"

record Result =
  Requeue :: bool
  RequeueAfter :: nat

definition emptyResult :: Result where
  "emptyResult = \<lparr> Requeue = False, RequeueAfter = 0 \<rparr>"

text \<open>A run of the reconciler either returns or panics on a nil pointer.\<close>

datatype 'a outcome = Returned 'a | Panicked

datatype ConditionStatus = ConditionTrue | ConditionFalse | ConditionUnknown

record Condition =
  Type :: string
  Status :: ConditionStatus
  Message :: string
  Reason :: string

text \<open>
  The fields of the hive \<^verbatim>\<open>ClusterDeployment\<close> that the reconciler reads. The pointer
  fields \<^verbatim>\<open>ClusterPoolRef\<close>, \<^verbatim>\<open>Platform.AgentBareMetal\<close> and \<^verbatim>\<open>ClusterMetadata\<close> are
  options, \<open>None\<close> being nil; \<^verbatim>\<open>AdminKubeconfigSecretRef\<close> holds the referenced name.
\<close>

datatype BareMetalPlatform = BareMetalPlatform

record Platform =
  AgentBareMetal :: "BareMetalPlatform option"

record ClusterPoolReference =
  ClaimedTimestamp :: "nat option"

record ClusterMetadata =
  AdminKubeconfigSecretRef :: string

record ClusterDeploymentSpec =
  Installed :: bool
  ClusterPoolRef :: "ClusterPoolReference option"
  Platform :: Platform
  ClusterMetadata :: "ClusterMetadata option"

record ClusterDeployment = ObjectMeta +
  Spec :: ClusterDeploymentSpec

text \<open>The client and REST mapper that \<^verbatim>\<open>helpers.GenerateClientFromSecret\<close> builds.\<close>

datatype RemoteClient = RemoteClient string

text \<open>
  What a run does to the world outside: the patches it issues, the events it records, the
  import of the payload into the target cluster, the condition it writes.
\<close>

datatype action =
    PatchManagedCluster ManagedCluster
  | PatchClusterDeployment ClusterDeployment
  | Eventf string string
  | ImportManagedCluster RemoteClient Secret
  | UpdateStatus string Condition

text \<open>
  The collaborators, as the answers they give: the object store, the informer listers,
  and the helpers \<^verbatim>\<open>GenerateClientFromSecret\<close>, \<^verbatim>\<open>ImportManagedClusterFromSecret\<close> and
  \<^verbatim>\<open>UpdateManagedClusterStatus\<close>, whose code is outside the sources at hand. A getter is
  asked with namespace and name; the work lister answers with the works of a namespace.
\<close>

record API =
  getClusterDeployment :: "string \<Rightarrow> string \<Rightarrow> apiError + ClusterDeployment"
  getManagedCluster :: "string \<Rightarrow> apiError + ManagedCluster"
  patchManagedCluster :: "ManagedCluster \<Rightarrow> apiError option"
  patchClusterDeployment :: "ClusterDeployment \<Rightarrow> apiError option"
  AutoImportSecretLister :: "string \<Rightarrow> string \<Rightarrow> apiError + Secret"
  kubeClientGetSecret :: "string \<Rightarrow> string \<Rightarrow> apiError + Secret"
  GenerateClientFromSecret :: "Secret \<Rightarrow> apiError + RemoteClient"
  ImportSecretLister :: "string \<Rightarrow> string \<Rightarrow> apiError + Secret"
  KlusterletWorkLister :: "string \<Rightarrow> apiError + ManifestWork list"
  ImportManagedClusterFromSecret :: "RemoteClient \<Rightarrow> Secret \<Rightarrow> apiError option"
  UpdateManagedClusterStatus :: "string \<Rightarrow> Condition \<Rightarrow> apiError option"

section \<open>The convergence helpers\<close>

text \<open>\<^verbatim>\<open>strings.TrimRight(s, "-")\<close> removes every trailing occurrence of the character.\<close>

definition TrimRight :: "string \<Rightarrow> char \<Rightarrow> string" where
  "TrimRight s c = rev (dropWhile (\<lambda>x. x = c) (rev s))"

text \<open>
  \<^verbatim>\<open>resourcemerge.MergeMap\<close> of library-go, for a required map of one entry and the flag
  \<^verbatim>\<open>modified\<close> starting false: a key ending in \<^verbatim>\<open>-\<close> asks for removal; any other key is
  set when it is missing or holds another value. A nil map is the empty map.
\<close>

definition MergeMap :: "(string \<rightharpoonup> string) \<Rightarrow> string \<Rightarrow> string \<Rightarrow> bool \<times> (string \<rightharpoonup> string)" where
  "MergeMap existing key v =
     (if HasSuffix key ''-'' then
        (let actualKey = TrimRight key (CHR ''-'') in
         case existing actualKey of
           None \<Rightarrow> (False, existing)
         | Some existingV \<Rightarrow> (True, existing(actualKey := None)))
      else
        (case existing key of
           None \<Rightarrow> (True, existing(key \<mapsto> v))
         | Some existingV \<Rightarrow>
             if v \<noteq> existingV then (True, existing(key \<mapsto> v)) else (False, existing)))"

text \<open>
  \<^verbatim>\<open>setCreatedViaAnnotation\<close>. The result is the returned error, the cluster object as the
  call leaves it, and the actions taken in order.
\<close>

definition setCreatedViaAnnotation ::
  "constants \<Rightarrow> API \<Rightarrow> ClusterDeployment \<Rightarrow> ManagedCluster \<Rightarrow>
     apiError option \<times> ManagedCluster \<times> action list" where
  "setCreatedViaAnnotation k api clusterDeployment cluster =
     (let viaAnnotation = mapIndex (Annotations cluster) (CreatedViaAnnotation k) in
      if viaAnnotation = CreatedViaDiscovery k then (None, cluster, [])
      else
        (case MergeMap (Annotations cluster) (CreatedViaAnnotation k)
                (if AgentBareMetal (Platform (Spec clusterDeployment)) \<noteq> None
                 then CreatedViaAI k else CreatedViaHive k) of
           (modified, annotations) \<Rightarrow>
             (let cluster = cluster\<lparr>Annotations := annotations\<rparr> in
              if \<not> modified then (None, cluster, [])
              else
                (case patchManagedCluster api cluster of
                   Some err \<Rightarrow> (Some err, cluster, [PatchManagedCluster cluster])
                 | None \<Rightarrow>
                     (None, cluster,
                      [PatchManagedCluster cluster,
                       Eventf ''ManagedClusterLabelsUpdated''
                         (''The managed cluster '' @ Name cluster @ '' labels is added'')])))))"

text \<open>The loop of \<^verbatim>\<open>removeImportFinalizer\<close> over the finalizers, with its \<^verbatim>\<open>break\<close>.\<close>

fun hasImportFinalizer :: "string \<Rightarrow> string list \<Rightarrow> bool" where
  "hasImportFinalizer importFinalizer [] = False"
| "hasImportFinalizer importFinalizer (finalizer # rest) =
     (if finalizer = importFinalizer then True else hasImportFinalizer importFinalizer rest)"

definition removeImportFinalizer ::
  "constants \<Rightarrow> API \<Rightarrow> ClusterDeployment \<Rightarrow>
     apiError option \<times> ClusterDeployment \<times> action list" where
  "removeImportFinalizer k api clusterDeployment =
     (if \<not> hasImportFinalizer (ImportFinalizer k) (Finalizers clusterDeployment)
      then (None, clusterDeployment, [])
      else if length (Finalizers clusterDeployment) \<noteq> 1
      then (None, clusterDeployment, [])
      else
        (let clusterDeployment = clusterDeployment\<lparr>Finalizers := []\<rparr> in
         case patchClusterDeployment api clusterDeployment of
           Some err \<Rightarrow> (Some err, clusterDeployment, [PatchClusterDeployment clusterDeployment])
         | None \<Rightarrow>
             (None, clusterDeployment,
              [PatchClusterDeployment clusterDeployment,
               Eventf ''ClusterDeploymentFinalizerRemoved''
                 (''The clusterdeployment '' @ Name clusterDeployment @ '' finalizer '' @
                  ImportFinalizer k @ '' is removed'')])))"

section \<open>The reconciler of the cluster deployment\<close>

text \<open>The end of \<^verbatim>\<open>Reconcile\<close>: the import, the condition and the aggregate of the errors.\<close>

definition reconcileImport ::
  "API \<Rightarrow> string \<Rightarrow> RemoteClient \<Rightarrow> Secret \<Rightarrow> (Result \<times> error option) outcome \<times> action list" where
  "reconcileImport api clusterName hiveClient importSecret =
     (let importCondition =
            \<lparr> Type = ''ManagedClusterImportSucceeded'', Status = ConditionTrue,
              Message = ''Import succeeded'', Reason = ''ManagedClusterImported'' \<rparr>;
          errs = [];
          (errs, importCondition) =
            (case ImportManagedClusterFromSecret api hiveClient importSecret of
               None \<Rightarrow> (errs, importCondition)
             | Some err \<Rightarrow>
                 (errs @ [err],
                  importCondition
                    \<lparr> Status := ConditionFalse,
                      Message := ''Unable to import '' @ clusterName @ '': '' @ ErrorText err,
                      Reason := ''ManagedClusterNotImported'' \<rparr>));
          errs =
            (case UpdateManagedClusterStatus api clusterName importCondition of
               None \<Rightarrow> errs
             | Some err \<Rightarrow> errs @ [err])
      in (Returned (emptyResult, NewAggregate errs),
          [ImportManagedCluster hiveClient importSecret, UpdateStatus clusterName importCondition]))"

text \<open>
  The selector \<^verbatim>\<open>labels.SelectorFromSet\<close> of the one label set to \<^verbatim>\<open>"true"\<close>, applied by
  the lister to the works of the namespace.
\<close>

definition workSelector :: "constants \<Rightarrow> ManifestWork \<Rightarrow> bool" where
  "workSelector k w = (Labels w (KlusterletWorksLabel k) = Some ''true'')"

text \<open>
  The middle of \<^verbatim>\<open>Reconcile\<close>, from the auto-import secret to the count of the klusterlet
  works. Reading \<^verbatim>\<open>Spec.ClusterMetadata.AdminKubeconfigSecretRef.Name\<close> through a nil
  \<^verbatim>\<open>ClusterMetadata\<close> panics.
\<close>

definition reconcileInstalled ::
  "constants \<Rightarrow> API \<Rightarrow> string \<Rightarrow> ClusterDeployment \<Rightarrow>
     (Result \<times> error option) outcome \<times> action list" where
  "reconcileInstalled k api clusterName clusterDeployment =
     (case AutoImportSecretLister api clusterName (AutoImportSecretName k) of
        Inr autoImportSecret \<Rightarrow> (Returned (emptyResult, None), [])
      | Inl err \<Rightarrow>
          if \<not> IsNotFound err then (Returned (emptyResult, Some (Plain err)), [])
          else
            (case ClusterMetadata (Spec clusterDeployment) of
               None \<Rightarrow> (Panicked, [])
             | Some clusterMetadata \<Rightarrow>
                 (case kubeClientGetSecret api clusterName (AdminKubeconfigSecretRef clusterMetadata) of
                    Inl err \<Rightarrow> (Returned (emptyResult, Some (Plain err)), [])
                  | Inr hiveSecret \<Rightarrow>
                      (case GenerateClientFromSecret api hiveSecret of
                         Inl err \<Rightarrow> (Returned (emptyResult, Some (Plain err)), [])
                       | Inr hiveClient \<Rightarrow>
                           (case ImportSecretLister api clusterName
                                   (clusterName @ ''-'' @ ImportSecretNameSuffix k) of
                              Inl err \<Rightarrow>
                                if IsNotFound err then (Returned (emptyResult, None), [])
                                else (Returned (emptyResult, Some (Plain err)), [])
                            | Inr importSecret \<Rightarrow>
                                (case KlusterletWorkLister api clusterName of
                                   Inl err \<Rightarrow> (Returned (emptyResult, Some (Plain err)), [])
                                 | Inr works \<Rightarrow>
                                     (let manifestWorks = filter (workSelector k) works in
                                      if length manifestWorks \<noteq> 2
                                      then (Returned (emptyResult, None), [])
                                      else reconcileImport api clusterName hiveClient importSecret)))))))"

text \<open>\<^verbatim>\<open>Reconcile\<close>, from the request to the created-via annotation, then the rest.\<close>

definition Reconcile ::
  "constants \<Rightarrow> API \<Rightarrow> string \<Rightarrow> (Result \<times> error option) outcome \<times> action list" where
  "Reconcile k api clusterName =
     (case getClusterDeployment api clusterName clusterName of
        Inl err \<Rightarrow>
          if IsNotFound err then (Returned (emptyResult, None), [])
          else (Returned (emptyResult, Some (Plain err)), [])
      | Inr clusterDeployment \<Rightarrow>
          if \<not> IsZero (DeletionTimestamp clusterDeployment) then
            (case removeImportFinalizer k api clusterDeployment of
               (err, deployment, acts) \<Rightarrow> (Returned (emptyResult, map_option Plain err), acts))
          else
            (case getManagedCluster api clusterName of
               Inl err \<Rightarrow>
                 if IsNotFound err then (Returned (emptyResult, None), [])
                 else (Returned (emptyResult, Some (Plain err)), [])
             | Inr managedCluster \<Rightarrow>
                 if \<not> Installed (Spec clusterDeployment) then (Returned (emptyResult, None), [])
                 else if (case ClusterPoolRef (Spec clusterDeployment) of
                            None \<Rightarrow> False
                          | Some ref \<Rightarrow> IsZero (ClaimedTimestamp ref))
                 then (Returned (emptyResult, None), [])
                 else
                   (case setCreatedViaAnnotation k api clusterDeployment managedCluster of
                      (Some err, cluster, acts) \<Rightarrow> (Returned (emptyResult, Some (Plain err)), acts)
                    | (None, cluster, acts) \<Rightarrow>
                        (case reconcileInstalled k api clusterName clusterDeployment of
                           (out, acts') \<Rightarrow> (out, acts @ acts')))))"

section \<open>Sample objects\<close>

definition mkWork :: "string \<Rightarrow> string \<Rightarrow> string list \<Rightarrow> ManifestWork" where
  "mkWork name ns ms =
     \<lparr> Name = name, Namespace = ns, Annotations = Map.empty, Labels = Map.empty,
       Finalizers = [], DeletionTimestamp = None, Manifests = ms \<rparr>"

definition mkSecret ::
  "string \<Rightarrow> string \<Rightarrow> (string \<rightharpoonup> string) \<Rightarrow> (string \<rightharpoonup> string) \<Rightarrow> Secret" where
  "mkSecret name ns anns d =
     \<lparr> Name = name, Namespace = ns, Annotations = anns, Labels = Map.empty,
       Finalizers = [], DeletionTimestamp = None, Data = d \<rparr>"

definition mkDeployment ::
  "string \<Rightarrow> string list \<Rightarrow> nat option \<Rightarrow> ClusterDeploymentSpec \<Rightarrow> ClusterDeployment" where
  "mkDeployment name fs deleted spec =
     \<lparr> Name = name, Namespace = name, Annotations = Map.empty, Labels = Map.empty,
       Finalizers = fs, DeletionTimestamp = deleted, Spec = spec \<rparr>"

definition mkCluster :: "string \<Rightarrow> (string \<rightharpoonup> string) \<Rightarrow> ManagedCluster" where
  "mkCluster name anns =
     \<lparr> Name = name, Namespace = [], Annotations = anns, Labels = Map.empty,
       Finalizers = [], DeletionTimestamp = None \<rparr>"

definition mkKlusterletWork :: "constants \<Rightarrow> string \<Rightarrow> string \<Rightarrow> ManifestWork" where
  "mkKlusterletWork k name ns =
     \<lparr> Name = name, Namespace = ns, Annotations = Map.empty,
       Labels = [KlusterletWorksLabel k \<mapsto> ''true''],
       Finalizers = [], DeletionTimestamp = None, Manifests = [] \<rparr>"

definition notFound :: apiError where
  "notFound = ApiError True ''not found''"

text \<open>
  The end-to-end scenario of the specification: the install record \<^verbatim>\<open>c1\<close> is installed
  and bound to no pool, the cluster record \<^verbatim>\<open>c1\<close> exists, there is no auto-import
  secret, the credential secret resolves to a client, the payload secret \<^verbatim>\<open>c1-import\<close>
  is present, and the namespace \<^verbatim>\<open>c1\<close> holds two labelled works and an unlabelled one.
  Every patch, the import and the write of the condition succeed.
\<close>

definition c1Spec :: ClusterDeploymentSpec where
  "c1Spec =
     \<lparr> Installed = True, ClusterPoolRef = None, Platform = \<lparr> AgentBareMetal = None \<rparr>,
       ClusterMetadata = Some \<lparr> AdminKubeconfigSecretRef = ''c1-admin-kubeconfig'' \<rparr> \<rparr>"

definition c1Deployment :: ClusterDeployment where
  "c1Deployment = mkDeployment ''c1'' [] None c1Spec"

definition c1Cluster :: ManagedCluster where
  "c1Cluster = mkCluster ''c1'' Map.empty"

definition c1Client :: RemoteClient where
  "c1Client = RemoteClient ''https://api.c1:6443''"

definition c1ImportSecret :: Secret where
  "c1ImportSecret = mkSecret ''c1-import'' ''c1'' Map.empty [''import.yaml'' \<mapsto> ''manifests'']"

definition c1Works :: "ManifestWork list" where
  "c1Works =
     [mkKlusterletWork specConstants ''c1-klusterlet-crds'' ''c1'',
      mkWork ''addon-deploy'' ''c1'' [],
      mkKlusterletWork specConstants ''c1-klusterlet'' ''c1'']"

definition c1API :: API where
  "c1API =
     \<lparr> getClusterDeployment =
         (\<lambda>ns name. if ns = ''c1'' \<and> name = ''c1'' then Inr c1Deployment else Inl notFound),
       getManagedCluster = (\<lambda>name. if name = ''c1'' then Inr c1Cluster else Inl notFound),
       patchManagedCluster = (\<lambda>cluster. None),
       patchClusterDeployment = (\<lambda>deployment. None),
       AutoImportSecretLister = (\<lambda>ns name. Inl notFound),
       kubeClientGetSecret =
         (\<lambda>ns name. if ns = ''c1'' \<and> name = ''c1-admin-kubeconfig''
            then Inr (mkSecret name ns Map.empty [''kubeconfig'' \<mapsto> ''admin''])
            else Inl notFound),
       GenerateClientFromSecret = (\<lambda>secret. Inr c1Client),
       ImportSecretLister =
         (\<lambda>ns name. if ns = ''c1'' \<and> name = ''c1-import'' then Inr c1ImportSecret
            else Inl notFound),
       KlusterletWorkLister = (\<lambda>ns. if ns = ''c1'' then Inr c1Works else Inr []),
       ImportManagedClusterFromSecret = (\<lambda>hiveClient secret. None),
       UpdateManagedClusterStatus = (\<lambda>name condition. None) \<rparr>"

text \<open>The cluster record of the scenario once annotated, and the actions that annotate it.\<close>

definition c1Annotated :: ManagedCluster where
  "c1Annotated = mkCluster ''c1'' [CreatedViaAnnotation specConstants \<mapsto> CreatedViaHive specConstants]"

definition c1Acts :: "action list" where
  "c1Acts =
     [PatchManagedCluster c1Annotated,
      Eventf ''ManagedClusterLabelsUpdated'' ''The managed cluster c1 labels is added'']"

text \<open>
  The examples compare ASCII strings only, and those never reach the comparison of the
  Unicode tables; where an example must name one, it is the comparison that holds of
  equal strings alone.
\<close>

definition bytewiseFold :: "string \<Rightarrow> string \<Rightarrow> bool" where
  "bytewiseFold s t = (s = t)"

section \<open>Vocabulary of the properties\<close>

text \<open>Equality of ASCII strings up to the case of letters.\<close>

definition isASCII :: "string \<Rightarrow> bool" where
  "isASCII s = list_all (\<lambda>c. (of_char c :: nat) < 128) s"

definition toLowerASCII :: "char \<Rightarrow> char" where
  "toLowerASCII c =
     (let n = (of_char c :: nat) in if 65 \<le> n \<and> n \<le> 90 then char_of (n + 32) else c)"

text \<open>What a list of actions holds of each kind.\<close>

fun importsAttempted :: "action list \<Rightarrow> (RemoteClient \<times> Secret) list" where
  "importsAttempted [] = []"
| "importsAttempted (ImportManagedCluster hiveClient secret # acts) =
     (hiveClient, secret) # importsAttempted acts"
| "importsAttempted (a # acts) = importsAttempted acts"

fun conditionsWritten :: "action list \<Rightarrow> (string \<times> Condition) list" where
  "conditionsWritten [] = []"
| "conditionsWritten (UpdateStatus name condition # acts) =
     (name, condition) # conditionsWritten acts"
| "conditionsWritten (a # acts) = conditionsWritten acts"

fun eventsRecorded :: "action list \<Rightarrow> (string \<times> string) list" where
  "eventsRecorded [] = []"
| "eventsRecorded (Eventf reason message # acts) = (reason, message) # eventsRecorded acts"
| "eventsRecorded (a # acts) = eventsRecorded acts"

text \<open>
  The cluster record that the store holds after a run of \<^verbatim>\<open>setCreatedViaAnnotation\<close> on
  the record \<open>cluster\<close>: a patch that was issued and succeeded stores the patched record,
  and otherwise the record stays as it was.
\<close>

fun storedCluster ::
  "ManagedCluster \<Rightarrow> apiError option \<times> ManagedCluster \<times> action list \<Rightarrow> ManagedCluster" where
  "storedCluster cluster (None, patched, PatchManagedCluster p # acts) = p"
| "storedCluster cluster (err, patched, acts) = cluster"

text \<open>The value of the created-via annotation that the platform of the install record asks for.\<close>

definition desiredCreatedVia :: "constants \<Rightarrow> ClusterDeployment \<Rightarrow> string" where
  "desiredCreatedVia k deployment =
     (if AgentBareMetal (Platform (Spec deployment)) \<noteq> None then CreatedViaAI k
      else CreatedViaHive k)"

text \<open>
  The error \<open>e\<close> is the answer of a failing call: a read of the install record, of the
  cluster record, of the auto-import secret or of the payload secret that failed
  otherwise than by not finding the object, a patch, the read of the credential secret
  (not finding it included), the construction of the client, or the listing of the works.
\<close>

definition callFailed :: "API \<Rightarrow> apiError \<Rightarrow> bool" where
  "callFailed api e =
     ((\<exists>ns name. getClusterDeployment api ns name = Inl e \<and> \<not> IsNotFound e) \<or>
      (\<exists>name. getManagedCluster api name = Inl e \<and> \<not> IsNotFound e) \<or>
      (\<exists>cluster. patchManagedCluster api cluster = Some e) \<or>
      (\<exists>deployment. patchClusterDeployment api deployment = Some e) \<or>
      (\<exists>ns name. AutoImportSecretLister api ns name = Inl e \<and> \<not> IsNotFound e) \<or>
      (\<exists>ns name. kubeClientGetSecret api ns name = Inl e) \<or>
      (\<exists>secret. GenerateClientFromSecret api secret = Inl e) \<or>
      (\<exists>ns name. ImportSecretLister api ns name = Inl e \<and> \<not> IsNotFound e) \<or>
      (\<exists>ns. KlusterletWorkLister api ns = Inl e))"

text \<open>The readiness gates, each as a condition on the answers of the collaborators.\<close>

definition installRecordMissing :: "API \<Rightarrow> string \<Rightarrow> bool" where
  "installRecordMissing api clusterName =
     (case getClusterDeployment api clusterName clusterName of
        Inl err \<Rightarrow> IsNotFound err | Inr deployment \<Rightarrow> False)"

definition clusterRecordMissing :: "API \<Rightarrow> string \<Rightarrow> bool" where
  "clusterRecordMissing api clusterName =
     (case getManagedCluster api clusterName of
        Inl err \<Rightarrow> IsNotFound err | Inr cluster \<Rightarrow> False)"

definition unclaimed :: "ClusterDeployment \<Rightarrow> bool" where
  "unclaimed deployment =
     (case ClusterPoolRef (Spec deployment) of
        None \<Rightarrow> False | Some ref \<Rightarrow> IsZero (ClaimedTimestamp ref))"

definition notInstalledOrUnclaimed :: "API \<Rightarrow> string \<Rightarrow> bool" where
  "notInstalledOrUnclaimed api clusterName =
     (case getClusterDeployment api clusterName clusterName of
        Inl err \<Rightarrow> False
      | Inr deployment \<Rightarrow> \<not> Installed (Spec deployment) \<or> unclaimed deployment)"

definition autoImportSecretPresent :: "constants \<Rightarrow> API \<Rightarrow> string \<Rightarrow> bool" where
  "autoImportSecretPresent k api clusterName =
     (case AutoImportSecretLister api clusterName (AutoImportSecretName k) of
        Inl err \<Rightarrow> False | Inr secret \<Rightarrow> True)"

definition autoImportSecretAbsent :: "constants \<Rightarrow> API \<Rightarrow> string \<Rightarrow> bool" where
  "autoImportSecretAbsent k api clusterName =
     (case AutoImportSecretLister api clusterName (AutoImportSecretName k) of
        Inl err \<Rightarrow> IsNotFound err | Inr secret \<Rightarrow> False)"

definition importSecretMissing :: "constants \<Rightarrow> API \<Rightarrow> string \<Rightarrow> bool" where
  "importSecretMissing k api clusterName =
     (case ImportSecretLister api clusterName (clusterName @ ''-'' @ ImportSecretNameSuffix k) of
        Inl err \<Rightarrow> IsNotFound err | Inr secret \<Rightarrow> False)"

definition klusterletWorkCount :: "constants \<Rightarrow> API \<Rightarrow> string \<Rightarrow> nat option" where
  "klusterletWorkCount k api clusterName =
     (case KlusterletWorkLister api clusterName of
        Inl err \<Rightarrow> None | Inr works \<Rightarrow> Some (length (filter (workSelector k) works)))"

definition workCountNotTwo :: "constants \<Rightarrow> API \<Rightarrow> string \<Rightarrow> bool" where
  "workCountNotTwo k api clusterName =
     (case klusterletWorkCount k api clusterName of None \<Rightarrow> False | Some c \<Rightarrow> c \<noteq> 2)"

text \<open>Some readiness dependency of the cluster is absent.\<close>

definition dependencyAbsent :: "constants \<Rightarrow> API \<Rightarrow> string \<Rightarrow> bool" where
  "dependencyAbsent k api clusterName =
     (installRecordMissing api clusterName \<or> clusterRecordMissing api clusterName \<or>
      notInstalledOrUnclaimed api clusterName \<or> autoImportSecretPresent k api clusterName \<or>
      importSecretMissing k api clusterName \<or> workCountNotTwo k api clusterName)"

text \<open>
  The run passes the gates up to the created-via annotation: the install record and the
  cluster record are read, the install record is not being deleted, it is installed and,
  when bound to a pool, claimed, and the annotation is converged with the actions \<open>acts\<close>.
\<close>

definition gatesPassed ::
  "constants \<Rightarrow> API \<Rightarrow> string \<Rightarrow> ClusterDeployment \<Rightarrow> ManagedCluster \<Rightarrow> action list \<Rightarrow> bool" where
  "gatesPassed k api clusterName deployment cluster acts =
     (getClusterDeployment api clusterName clusterName = Inr deployment \<and>
      IsZero (DeletionTimestamp deployment) \<and>
      getManagedCluster api clusterName = Inr cluster \<and>
      Installed (Spec deployment) \<and> \<not> unclaimed deployment \<and>
      fst (setCreatedViaAnnotation k api deployment cluster) = None \<and>
      snd (snd (setCreatedViaAnnotation k api deployment cluster)) = acts)"

text \<open>The credential secret named by the install record is read and yields the client.\<close>

definition remoteClientReady :: "API \<Rightarrow> string \<Rightarrow> ClusterDeployment \<Rightarrow> RemoteClient \<Rightarrow> bool" where
  "remoteClientReady api clusterName deployment hiveClient =
     (case ClusterMetadata (Spec deployment) of
        None \<Rightarrow> False
      | Some clusterMetadata \<Rightarrow>
          (case kubeClientGetSecret api clusterName (AdminKubeconfigSecretRef clusterMetadata) of
             Inl err \<Rightarrow> False
           | Inr hiveSecret \<Rightarrow> GenerateClientFromSecret api hiveSecret = Inr hiveClient))"

text \<open>All gates pass: the run reaches the import with the client and the payload secret.\<close>

definition readyToImport ::
  "constants \<Rightarrow> API \<Rightarrow> string \<Rightarrow> ClusterDeployment \<Rightarrow> ManagedCluster \<Rightarrow> action list \<Rightarrow>
     RemoteClient \<Rightarrow> Secret \<Rightarrow> bool" where
  "readyToImport k api clusterName deployment cluster acts hiveClient importSecret =
     (gatesPassed k api clusterName deployment cluster acts \<and>
      autoImportSecretAbsent k api clusterName \<and>
      remoteClientReady api clusterName deployment hiveClient \<and>
      ImportSecretLister api clusterName (clusterName @ ''-'' @ ImportSecretNameSuffix k) =
        Inr importSecret \<and>
      klusterletWorkCount k api clusterName = Some 2)"

text \<open>
  A run that ends before the import: it panicked, or returned no error, or returned the
  error of a failing call.
\<close>

definition quietOutcome :: "API \<Rightarrow> (Result \<times> error option) outcome \<Rightarrow> bool" where
  "quietOutcome api out =
     (out = Panicked \<or> out = Returned (emptyResult, None) \<or>
      (\<exists>e. out = Returned (emptyResult, Some (Plain e)) \<and> callFailed api e))"

section \<open>Properties of the string functions\<close>

lemma HasSuffix_iff_suffix: "HasSuffix s suf \<longleftrightarrow> suffix suf s"
  by (auto simp: HasSuffix_def suffix_def) (metis append_take_drop_id)

lemma HasSuffix_append: "HasSuffix (c @ suf) suf"
  by (simp add: HasSuffix_def)

lemma TrimSuffix_append: "TrimSuffix (c @ suf) suf = c"
  by (simp add: TrimSuffix_def HasSuffix_def)

lemma TrimSuffix_unchanged: "\<not> HasSuffix s suf \<Longrightarrow> TrimSuffix s suf = s"
  by (simp add: TrimSuffix_def)

lemma HasSuffix_comparable:
  "HasSuffix s a \<Longrightarrow> HasSuffix s b \<Longrightarrow> HasSuffix a b \<or> HasSuffix b a"
  unfolding HasSuffix_iff_suffix by (rule suffix_same_cases)

section \<open>The event router: work objects\<close>

text \<open>
  An update passes the filter of the hosted work source only when the name of the new
  object ends in both suffixes at once, so no update passes when neither suffix ends in
  the other.
\<close>

lemma hostedWorkPredicate_update_both:
  "hostedWorkPredicate k (UpdateEvent objectOld objectNew) \<Longrightarrow>
     HasSuffix (GetName objectNew) (HostedKlusterletManifestworkSuffix k) \<and>
     HasSuffix (GetName objectNew) (HostedManagedKubeconfigManifestworkSuffix k)"
  by (simp add: Let_def split: if_splits)

lemma hostedWorkPredicate_update_never:
  assumes "\<not> HasSuffix (HostedKlusterletManifestworkSuffix k) (HostedManagedKubeconfigManifestworkSuffix k)"
    and "\<not> HasSuffix (HostedManagedKubeconfigManifestworkSuffix k) (HostedKlusterletManifestworkSuffix k)"
  shows "\<not> hostedWorkPredicate k (UpdateEvent objectOld objectNew)"
  using assms hostedWorkPredicate_update_both [of k objectOld objectNew]
    HasSuffix_comparable [of "GetName objectNew" "HostedKlusterletManifestworkSuffix k"
      "HostedManagedKubeconfigManifestworkSuffix k"]
  by blast

text \<open>
  C1. The claim: an update of a work object passes the filter exactly when its manifests
  changed, in particular when the name ends in exactly one of the two hosted suffixes.
  The code does otherwise: the update of the work \<^verbatim>\<open>cluster-a-klusterlet\<close>, whose name ends
  in the klusterlet suffix and not in the kubeconfig suffix and whose manifests changed,
  is dropped.
\<close>

theorem hostedWork_update_one_suffix_dropped:
  "HasSuffix ''cluster-a-klusterlet'' (HostedKlusterletManifestworkSuffix specConstants) \<and>
   \<not> HasSuffix ''cluster-a-klusterlet'' (HostedManagedKubeconfigManifestworkSuffix specConstants) \<and>
   \<not> ManifestsEqual [''new''] [''old''] \<and>
   hostedWorkPredicate specConstants
     (UpdateEvent (ManifestWorkObj (mkWork ''cluster-a-klusterlet'' ''hosting'' [''old'']))
        (ManifestWorkObj (mkWork ''cluster-a-klusterlet'' ''hosting'' [''new'']))) = False"
  by (simp add: specConstants_def mkWork_def HasSuffix_def ManifestsEqual_def)

text \<open>
  C2, as the claim states it: a name that ends in a suffix is keyed by the name with the
  suffix and its separator stripped, any other by the namespace. The work \<^verbatim>\<open>xklusterlet\<close>
  in the namespace \<^verbatim>\<open>cluster-b\<close> ends in the klusterlet suffix, and its key is neither the
  stripped name nor the namespace: it is the whole name.
\<close>

theorem hostedWorkMapFunc_no_separator_counterexample:
  "HasSuffix ''xklusterlet'' (HostedKlusterletManifestworkSuffix specConstants) \<and>
   RequestName (hostedWorkMapFunc specConstants
     (ManifestWorkObj (mkWork ''xklusterlet'' ''cluster-b'' []))) = ''xklusterlet'' \<and>
   RequestName (hostedWorkMapFunc specConstants
     (ManifestWorkObj (mkWork ''xklusterlet'' ''cluster-b'' []))) \<noteq> ''x'' \<and>
   RequestName (hostedWorkMapFunc specConstants
     (ManifestWorkObj (mkWork ''xklusterlet'' ''cluster-b'' []))) \<noteq> ''cluster-b''"
  by (simp add: specConstants_def mkWork_def HasSuffix_def TrimSuffix_def hostedWorkMapFunc_def
      Let_def)

text \<open>
  C2, amended. The request has the key as namespace and as name. The key is the namespace
  of the object when its name ends in neither suffix. A name of the form
  \<open>c @ ''-'' @ suffix\<close> is keyed by \<open>c\<close>, the kubeconfig suffix being tried last and so
  winning over the klusterlet suffix. A name that ends in a suffix without the separator
  \<^verbatim>\<open>-\<close> before it is keyed by the whole name.
\<close>

theorem hostedWorkMapFunc_key:
  fixes k :: constants and obj :: Object
  defines "n \<equiv> GetName obj"
    and "s1 \<equiv> HostedKlusterletManifestworkSuffix k"
    and "s2 \<equiv> HostedManagedKubeconfigManifestworkSuffix k"
    and "key \<equiv> RequestName (hostedWorkMapFunc k obj)"
  shows "RequestNamespace (hostedWorkMapFunc k obj) = key \<and>
    (\<not> HasSuffix n s1 \<and> \<not> HasSuffix n s2 \<longrightarrow> key = GetNamespace obj) \<and>
    (\<forall>c. n = c @ ''-'' @ s2 \<longrightarrow> key = c) \<and>
    (\<forall>c. n = c @ ''-'' @ s1 \<and> \<not> HasSuffix n s2 \<longrightarrow> key = c) \<and>
    (HasSuffix n s2 \<and> \<not> HasSuffix n (''-'' @ s2) \<longrightarrow> key = n) \<and>
    (HasSuffix n s1 \<and> \<not> HasSuffix n s2 \<and> \<not> HasSuffix n (''-'' @ s1) \<longrightarrow> key = n)"
proof -
  have trim2: "HasSuffix n s2 \<Longrightarrow> key = TrimSuffix n (''-'' @ s2)"
    by (simp add: key_def n_def s2_def hostedWorkMapFunc_def Let_def)
  have trim1: "\<not> HasSuffix n s2 \<Longrightarrow> HasSuffix n s1 \<Longrightarrow> key = TrimSuffix n (''-'' @ s1)"
    by (simp add: key_def n_def s1_def s2_def hostedWorkMapFunc_def Let_def)
  have ns: "\<not> HasSuffix n s2 \<Longrightarrow> \<not> HasSuffix n s1 \<Longrightarrow> key = GetNamespace obj"
    by (simp add: key_def n_def s1_def s2_def hostedWorkMapFunc_def Let_def)
  have same: "RequestNamespace (hostedWorkMapFunc k obj) = key"
    by (simp add: key_def hostedWorkMapFunc_def Let_def)
  have kube: "\<forall>c. n = c @ ''-'' @ s2 \<longrightarrow> key = c"
  proof (intro allI impI)
    fix c assume eq: "n = c @ ''-'' @ s2"
    then have "HasSuffix n s2"
      using HasSuffix_append [of "c @ ''-''" s2] by simp
    then have "key = TrimSuffix n (''-'' @ s2)" by (rule trim2)
    then show "key = c"
      using eq TrimSuffix_append [of c "''-'' @ s2"] by simp
  qed
  have klus: "\<forall>c. n = c @ ''-'' @ s1 \<and> \<not> HasSuffix n s2 \<longrightarrow> key = c"
  proof (intro allI impI, elim conjE)
    fix c assume eq: "n = c @ ''-'' @ s1" and no: "\<not> HasSuffix n s2"
    from eq have "HasSuffix n s1"
      using HasSuffix_append [of "c @ ''-''" s1] by simp
    with no have "key = TrimSuffix n (''-'' @ s1)" by (rule trim1)
    then show "key = c"
      using eq TrimSuffix_append [of c "''-'' @ s1"] by simp
  qed
  show ?thesis
    using same ns kube klus trim2 trim1 by (auto simp: TrimSuffix_unchanged)
qed

theorem hostedWorkMapFunc_key_witness:
  "RequestName (hostedWorkMapFunc specConstants
     (ManifestWorkObj (mkWork ''cluster-a-klusterlet'' ''hosting'' []))) = ''cluster-a'' \<and>
   RequestName (hostedWorkMapFunc specConstants
     (ManifestWorkObj (mkWork ''cluster-a-kubeconfig'' ''hosting'' []))) = ''cluster-a'' \<and>
   RequestName (hostedWorkMapFunc specConstants
     (ManifestWorkObj (mkWork ''unrelated'' ''cluster-b'' []))) = ''cluster-b'' \<and>
   RequestName (hostedWorkMapFunc specConstants
     (ManifestWorkObj (mkWork ''akubeconfig'' ''cluster-b'' []))) = ''akubeconfig''"
  using hostedWorkMapFunc_key [of specConstants "ManifestWorkObj (mkWork ''cluster-a-klusterlet'' ''hosting'' [])"]
    hostedWorkMapFunc_key [of specConstants "ManifestWorkObj (mkWork ''cluster-a-kubeconfig'' ''hosting'' [])"]
    hostedWorkMapFunc_key [of specConstants "ManifestWorkObj (mkWork ''unrelated'' ''cluster-b'' [])"]
    hostedWorkMapFunc_key [of specConstants "ManifestWorkObj (mkWork ''akubeconfig'' ''cluster-b'' [])"]
  by (simp add: specConstants_def mkWork_def HasSuffix_def)

section \<open>The event router: secrets\<close>

lemma toLowerASCII_of_char:
  "(of_char (toLowerASCII c) :: nat) =
     (if 65 \<le> (of_char c :: nat) \<and> (of_char c :: nat) \<le> 90 then of_char c + 32 else of_char c)"
  by (simp add: toLowerASCII_def Let_def)

lemma toLowerASCII_eq_iff:
  assumes "tr \<noteq> sr"
  shows "toLowerASCII sr = toLowerASCII tr \<longleftrightarrow>
     (65 \<le> min (of_char sr :: nat) (of_char tr) \<and> min (of_char sr :: nat) (of_char tr) \<le> 90 \<and>
      max (of_char sr :: nat) (of_char tr) = min (of_char sr :: nat) (of_char tr) + 32)"
proof -
  have ne: "(of_char sr :: nat) \<noteq> of_char tr"
    using assms by simp
  have "toLowerASCII sr = toLowerASCII tr \<longleftrightarrow>
      (of_char (toLowerASCII sr) :: nat) = of_char (toLowerASCII tr)"
    by simp
  also have "\<dots> \<longleftrightarrow>
     (65 \<le> min (of_char sr :: nat) (of_char tr) \<and> min (of_char sr :: nat) (of_char tr) \<le> 90 \<and>
      max (of_char sr :: nat) (of_char tr) = min (of_char sr :: nat) (of_char tr) + 32)"
    using ne unfolding toLowerASCII_of_char by (auto simp: min_def max_def)
  finally show ?thesis .
qed

text \<open>
  On ASCII strings the comparison of \<^verbatim>\<open>strings.EqualFold\<close> is equality up to the case of
  letters, whatever the comparison of the Unicode tables.
\<close>

lemma EqualFold_ASCII:
  "isASCII s \<Longrightarrow> isASCII t \<Longrightarrow>
   EqualFold unicodeEqualFold s t \<longleftrightarrow> map toLowerASCII s = map toLowerASCII t"
proof (induction unicodeEqualFold s t rule: EqualFold.induct)
  case (1 unicodeEqualFold sr s tr t)
  then show ?case
    by (cases "tr = sr") (auto simp: isASCII_def Let_def toLowerASCII_eq_iff)
qed auto

lemma empty_neq_map_upd: "Map.empty \<noteq> m(a \<mapsto> b)"
  using map_upd_nonempty [of m a b] by (simp add: eq_commute)

text \<open>
  C3, as the claim states it: every creation and every deletion of an import secret is
  routed. The deletion of the import secret of \<^verbatim>\<open>cluster-a\<close> is not routed, and neither
  is its creation, the secret carrying no deploy-mode annotation.
\<close>

theorem importSecret_create_delete_counterexample:
  "Add bytewiseFold specConstants ImportSecretSource
     (DeleteEvent (SecretObj (mkSecret ''cluster-a-import'' ''cluster-a'' Map.empty Map.empty))) = None \<and>
   Add bytewiseFold specConstants ImportSecretSource
     (CreateEvent (SecretObj (mkSecret ''cluster-a-import'' ''cluster-a'' Map.empty Map.empty))) = None"
  by (simp add: route_def isHostedModeObject_def mkSecret_def mapIndex_def specConstants_def)

text \<open>
  C3, amended. No deletion of an import secret is routed. A creation is routed, keyed by
  the namespace, exactly when \<^verbatim>\<open>strings.EqualFold\<close> holds of the annotation of the
  deploy mode on the secret and the hosted mode; for an annotation and a hosted mode
  written in ASCII, that is when the two are equal up to the case of letters. An update
  of a secret is routed exactly when the data of the old and the new secret differ.
\<close>

theorem importSecret_routing:
  "Add uni k ImportSecretSource (DeleteEvent obj) = None \<and>
   Add uni k ImportSecretSource (CreateEvent obj) =
     (if EqualFold uni (mapIndex (GetAnnotations obj) (KlusterletDeployModeAnnotation k))
           (KlusterletDeployModeHosted k)
      then Some \<lparr> RequestNamespace = GetNamespace obj, RequestName = GetNamespace obj \<rparr>
      else None) \<and>
   (isASCII (mapIndex (GetAnnotations obj) (KlusterletDeployModeAnnotation k)) \<and>
    isASCII (KlusterletDeployModeHosted k) \<longrightarrow>
      (Add uni k ImportSecretSource (CreateEvent obj) \<noteq> None \<longleftrightarrow>
       map toLowerASCII (mapIndex (GetAnnotations obj) (KlusterletDeployModeAnnotation k)) =
       map toLowerASCII (KlusterletDeployModeHosted k))) \<and>
   Add uni k ImportSecretSource (UpdateEvent (SecretObj old) (SecretObj new)) =
     (if Data old = Data new then None
      else Some \<lparr> RequestNamespace = Namespace new, RequestName = Namespace new \<rparr>)"
  by (simp add: route_def isHostedModeObject_def defaultMapFunc_def secretUpdateFunc_def
      EqualFold_ASCII)

theorem importSecret_routing_witness:
  "Add bytewiseFold specConstants ImportSecretSource
     (CreateEvent (SecretObj (mkSecret ''cluster-a-import'' ''cluster-a''
        [KlusterletDeployModeAnnotation specConstants \<mapsto> ''hosted''] Map.empty))) =
     Some \<lparr> RequestNamespace = ''cluster-a'', RequestName = ''cluster-a'' \<rparr> \<and>
   Add bytewiseFold specConstants ImportSecretSource
     (DeleteEvent (SecretObj (mkSecret ''cluster-a-import'' ''cluster-a''
        [KlusterletDeployModeAnnotation specConstants \<mapsto> ''hosted''] Map.empty))) = None \<and>
   Add bytewiseFold specConstants ImportSecretSource
     (UpdateEvent (SecretObj (mkSecret ''cluster-a-import'' ''cluster-a'' Map.empty Map.empty))
        (SecretObj (mkSecret ''cluster-a-import'' ''cluster-a'' Map.empty [''import.yaml'' \<mapsto> ''v2'']))) =
     Some \<lparr> RequestNamespace = ''cluster-a'', RequestName = ''cluster-a'' \<rparr>"
proof -
  have hosted: "EqualFold bytewiseFold ''hosted'' (KlusterletDeployModeHosted specConstants)"
    by (simp add: specConstants_def)
  show ?thesis
    using importSecret_routing [of bytewiseFold specConstants
        "SecretObj (mkSecret ''cluster-a-import'' ''cluster-a''
          [KlusterletDeployModeAnnotation specConstants \<mapsto> ''hosted''] Map.empty)"
        "mkSecret ''cluster-a-import'' ''cluster-a'' Map.empty Map.empty"
        "mkSecret ''cluster-a-import'' ''cluster-a'' Map.empty [''import.yaml'' \<mapsto> ''v2'']"]
      hosted
    by (simp add: mkSecret_def mapIndex_def empty_neq_map_upd)
qed




section \<open>Finalizer cleanup\<close>

lemma hasImportFinalizer_iff: "hasImportFinalizer f fs \<longleftrightarrow> f \<in> set fs"
  by (induction fs) auto

lemma sole_finalizer_iff:
  "hasImportFinalizer f fs \<and> length fs = 1 \<longleftrightarrow> fs = [f]"
  by (cases fs) (auto simp: hasImportFinalizer_iff)

text \<open>
  C5, as the claim states it: the finalizer is removed and an audit event is emitted
  exactly when the import finalizer is the only finalizer. With the import finalizer the
  only one and the patch refused by the store, the cleanup returns the error of the patch
  and emits no event.
\<close>

theorem removeImportFinalizer_patch_fails_counterexample:
  "Finalizers (mkDeployment ''c1'' [ImportFinalizer specConstants] (Some 100) c1Spec) =
     [ImportFinalizer specConstants] \<and>
   fst (removeImportFinalizer specConstants
     (c1API\<lparr>patchClusterDeployment := \<lambda>deployment. Some (ApiError False ''conflict'')\<rparr>)
     (mkDeployment ''c1'' [ImportFinalizer specConstants] (Some 100) c1Spec)) =
     Some (ApiError False ''conflict'') \<and>
   eventsRecorded (snd (snd (removeImportFinalizer specConstants
     (c1API\<lparr>patchClusterDeployment := \<lambda>deployment. Some (ApiError False ''conflict'')\<rparr>)
     (mkDeployment ''c1'' [ImportFinalizer specConstants] (Some 100) c1Spec)))) = []"
  by (simp add: removeImportFinalizer_def mkDeployment_def Let_def)

text \<open>
  C5, amended. When the import finalizer is the only finalizer of the install record, the
  cleanup issues a patch that leaves the list of finalizers empty; if the patch succeeds
  it emits the audit event and returns no error, and if the patch fails it returns the
  error of the patch and emits no event. In every other case, the import finalizer absent
  or present together with another finalizer, the cleanup does nothing and returns no
  error.
\<close>

theorem removeImportFinalizer_sole:
  "removeImportFinalizer k api deployment =
     (if Finalizers deployment = [ImportFinalizer k] then
        (case patchClusterDeployment api (deployment\<lparr>Finalizers := []\<rparr>) of
           None \<Rightarrow>
             (None, deployment\<lparr>Finalizers := []\<rparr>,
              [PatchClusterDeployment (deployment\<lparr>Finalizers := []\<rparr>),
               Eventf ''ClusterDeploymentFinalizerRemoved''
                 (''The clusterdeployment '' @ Name deployment @ '' finalizer '' @
                  ImportFinalizer k @ '' is removed'')])
         | Some err \<Rightarrow>
             (Some err, deployment\<lparr>Finalizers := []\<rparr>,
              [PatchClusterDeployment (deployment\<lparr>Finalizers := []\<rparr>)]))
      else (None, deployment, []))"
proof (cases "Finalizers deployment = [ImportFinalizer k]")
  case True
  then show ?thesis
    by (simp add: removeImportFinalizer_def Let_def split: option.splits)
next
  case False
  then have "\<not> (hasImportFinalizer (ImportFinalizer k) (Finalizers deployment) \<and>
      length (Finalizers deployment) = 1)"
    by (simp only: sole_finalizer_iff not_False_eq_True)
  with False show ?thesis
    by (auto simp: removeImportFinalizer_def)
qed

theorem removeImportFinalizer_sole_witness:
  "removeImportFinalizer specConstants c1API
     (mkDeployment ''c1'' [ImportFinalizer specConstants] (Some 100) c1Spec) =
     (None, mkDeployment ''c1'' [] (Some 100) c1Spec,
      [PatchClusterDeployment (mkDeployment ''c1'' [] (Some 100) c1Spec),
       Eventf ''ClusterDeploymentFinalizerRemoved''
         (''The clusterdeployment c1 finalizer '' @ ImportFinalizer specConstants @ '' is removed'')]) \<and>
   removeImportFinalizer specConstants c1API
     (mkDeployment ''c1'' [ImportFinalizer specConstants, ''other-x''] (Some 100) c1Spec) =
     (None, mkDeployment ''c1'' [ImportFinalizer specConstants, ''other-x''] (Some 100) c1Spec, []) \<and>
   removeImportFinalizer specConstants c1API (mkDeployment ''c1'' [''other-x''] (Some 100) c1Spec) =
     (None, mkDeployment ''c1'' [''other-x''] (Some 100) c1Spec, [])"
  using removeImportFinalizer_sole [of specConstants c1API
      "mkDeployment ''c1'' [ImportFinalizer specConstants] (Some 100) c1Spec"]
    removeImportFinalizer_sole [of specConstants c1API
      "mkDeployment ''c1'' [ImportFinalizer specConstants, ''other-x''] (Some 100) c1Spec"]
    removeImportFinalizer_sole [of specConstants c1API
      "mkDeployment ''c1'' [''other-x''] (Some 100) c1Spec"]
  by (simp add: mkDeployment_def c1API_def specConstants_def)

section \<open>Annotation convergence\<close>

lemma MergeMap_plain:
  "\<not> HasSuffix key ''-'' \<Longrightarrow>
   MergeMap existing key v =
     (if existing key = Some v then (False, existing) else (True, existing(key \<mapsto> v)))"
  by (auto simp: MergeMap_def split: option.splits)

lemma setCreatedViaAnnotation_eq:
  assumes "\<not> HasSuffix (CreatedViaAnnotation k) ''-''"
  shows "setCreatedViaAnnotation k api deployment cluster =
     (if mapIndex (Annotations cluster) (CreatedViaAnnotation k) = CreatedViaDiscovery k \<or>
         Annotations cluster (CreatedViaAnnotation k) = Some (desiredCreatedVia k deployment)
      then (None, cluster, [])
      else
        (let patched = cluster\<lparr>Annotations :=
               (Annotations cluster)(CreatedViaAnnotation k \<mapsto> desiredCreatedVia k deployment)\<rparr>
         in case patchManagedCluster api patched of
              None \<Rightarrow> (None, patched,
                [PatchManagedCluster patched,
                 Eventf ''ManagedClusterLabelsUpdated''
                   (''The managed cluster '' @ Name cluster @ '' labels is added'')])
            | Some err \<Rightarrow> (Some err, patched, [PatchManagedCluster patched])))"
  using assms
  by (simp add: setCreatedViaAnnotation_def desiredCreatedVia_def MergeMap_plain Let_def
      split: option.splits)

lemma setCreatedViaAnnotation_settled:
  assumes "\<not> HasSuffix (CreatedViaAnnotation k) ''-''"
    and "Annotations cluster (CreatedViaAnnotation k) = Some (desiredCreatedVia k deployment)"
  shows "setCreatedViaAnnotation k api deployment cluster = (None, cluster, [])"
  using assms by (simp add: setCreatedViaAnnotation_eq)

lemma specConstants_plain: "\<not> HasSuffix (CreatedViaAnnotation specConstants) ''-''"
  by (simp add: specConstants_def HasSuffix_def)

text \<open>
  C8. The key of the created-via annotation not being a removal key of the merge (it does
  not end in \<^verbatim>\<open>-\<close>): when the annotation holds the discovery marker, or already holds
  the value that the platform of the install record asks for (the one for the bare-metal
  agent, the other for every other platform), nothing is patched and no event is
  emitted. Otherwise a patch is issued that sets the annotation to that value, and the
  event is emitted when the patch succeeds. A second run against the record as the store
  holds it after the first, the collaborators answering as before, emits no event and
  leaves the stored record as it is; after a first run that returned no error, the second
  run issues no patch either, whatever the collaborators answer.
\<close>

theorem setCreatedViaAnnotation_converges:
  fixes k :: constants and api :: API and deployment :: ClusterDeployment and cluster :: ManagedCluster
  defines "key \<equiv> CreatedViaAnnotation k"
    and "desired \<equiv> desiredCreatedVia k deployment"
  defines "patched \<equiv> cluster\<lparr>Annotations := (Annotations cluster)(key \<mapsto> desired)\<rparr>"
    and "first \<equiv> setCreatedViaAnnotation k api deployment cluster"
  defines "again \<equiv> setCreatedViaAnnotation k api deployment (storedCluster cluster first)"
  assumes plain: "\<not> HasSuffix (CreatedViaAnnotation k) ''-''"
  shows "(mapIndex (Annotations cluster) key = CreatedViaDiscovery k \<or>
          Annotations cluster key = Some desired \<longrightarrow> first = (None, cluster, [])) \<and>
         (mapIndex (Annotations cluster) key \<noteq> CreatedViaDiscovery k \<and>
          Annotations cluster key \<noteq> Some desired \<longrightarrow>
          first = (case patchManagedCluster api patched of
                     None \<Rightarrow> (None, patched,
                        [PatchManagedCluster patched,
                         Eventf ''ManagedClusterLabelsUpdated''
                           (''The managed cluster '' @ Name cluster @ '' labels is added'')])
                   | Some err \<Rightarrow> (Some err, patched, [PatchManagedCluster patched]))) \<and>
         eventsRecorded (snd (snd again)) = [] \<and>
         storedCluster (storedCluster cluster first) again = storedCluster cluster first \<and>
         (fst first = None \<longrightarrow>
          (\<forall>api'. setCreatedViaAnnotation k api' deployment (storedCluster cluster first) =
             (None, storedCluster cluster first, [])))"
proof -
  note eq = setCreatedViaAnnotation_eq [OF plain]
  have noop: "mapIndex (Annotations cluster) key = CreatedViaDiscovery k \<or>
      Annotations cluster key = Some desired \<longrightarrow> first = (None, cluster, [])"
    unfolding first_def key_def desired_def by (simp add: eq)
  have issue: "mapIndex (Annotations cluster) key \<noteq> CreatedViaDiscovery k \<and>
      Annotations cluster key \<noteq> Some desired \<longrightarrow>
      first = (case patchManagedCluster api patched of
                 None \<Rightarrow> (None, patched,
                    [PatchManagedCluster patched,
                     Eventf ''ManagedClusterLabelsUpdated''
                       (''The managed cluster '' @ Name cluster @ '' labels is added'')])
               | Some err \<Rightarrow> (Some err, patched, [PatchManagedCluster patched]))"
    unfolding first_def key_def desired_def patched_def by (simp add: eq Let_def)
  have settled: "setCreatedViaAnnotation k api' deployment patched = (None, patched, [])" for api'
    by (rule setCreatedViaAnnotation_settled [OF plain]) (simp add: patched_def key_def desired_def)
  consider
      (skip) "first = (None, cluster, [])"
    | (wrote) "first = (None, patched,
                [PatchManagedCluster patched,
                 Eventf ''ManagedClusterLabelsUpdated''
                   (''The managed cluster '' @ Name cluster @ '' labels is added'')])"
    | (failed) err where "first = (Some err, patched, [PatchManagedCluster patched])"
    using noop issue by (cases "patchManagedCluster api patched") auto
  then have rest: "eventsRecorded (snd (snd again)) = [] \<and>
      storedCluster (storedCluster cluster first) again = storedCluster cluster first \<and>
      (fst first = None \<longrightarrow>
        (\<forall>api'. setCreatedViaAnnotation k api' deployment (storedCluster cluster first) =
           (None, storedCluster cluster first, [])))"
  proof cases
    case skip
    then have st: "storedCluster cluster first = cluster" by simp
    have ag: "again = (None, cluster, [])"
      using skip by (simp add: again_def st) (simp add: first_def)
    have "setCreatedViaAnnotation k api' deployment cluster = (None, cluster, [])" for api'
      using skip unfolding first_def by (simp add: eq Let_def split: if_splits option.splits)
    then show ?thesis using st ag by simp
  next
    case wrote
    then have st: "storedCluster cluster first = patched" by simp
    show ?thesis using st settled wrote by (simp add: again_def)
  next
    case failed
    then have st: "storedCluster cluster first = cluster" by simp
    have ag: "again = first" using st unfolding again_def first_def by simp
    show ?thesis using st ag failed by simp
  qed
  from noop issue rest show ?thesis by blast
qed

theorem setCreatedViaAnnotation_converges_witness:
  "\<not> HasSuffix (CreatedViaAnnotation specConstants) ''-'' \<and>
   setCreatedViaAnnotation specConstants c1API c1Deployment c1Cluster =
     (None, c1Annotated, c1Acts) \<and>
   setCreatedViaAnnotation specConstants c1API c1Deployment c1Annotated = (None, c1Annotated, [])"
proof -
  have ann: "Annotations c1Cluster (CreatedViaAnnotation specConstants) = None"
    by (simp add: c1Cluster_def mkCluster_def)
  have disc: "mapIndex (Annotations c1Cluster) (CreatedViaAnnotation specConstants) \<noteq>
      CreatedViaDiscovery specConstants"
    by (simp add: mapIndex_def ann) (simp add: specConstants_def)
  have patched: "c1Cluster\<lparr>Annotations := (Annotations c1Cluster)
      (CreatedViaAnnotation specConstants \<mapsto> desiredCreatedVia specConstants c1Deployment)\<rparr> = c1Annotated"
    by (simp add: c1Cluster_def c1Annotated_def mkCluster_def desiredCreatedVia_def c1Deployment_def
        mkDeployment_def c1Spec_def)
  have ok: "patchManagedCluster c1API c1Annotated = None"
    by (simp add: c1API_def)
  have nm: "Name c1Cluster = ''c1''"
    by (simp add: c1Cluster_def mkCluster_def)
  note conv = setCreatedViaAnnotation_converges [where k = specConstants and api = c1API
      and deployment = c1Deployment and cluster = c1Cluster, OF specConstants_plain]
  from conv ann disc have first: "setCreatedViaAnnotation specConstants c1API c1Deployment c1Cluster =
      (None, c1Annotated, c1Acts)"
    by (simp add: patched ok nm c1Acts_def)
  from conv have "\<forall>api'. setCreatedViaAnnotation specConstants api' c1Deployment c1Annotated =
      (None, c1Annotated, [])"
    by (simp add: first c1Acts_def)
  with first specConstants_plain show ?thesis by blast
qed

section \<open>The reconciler: what a run does\<close>

lemma importsAttempted_append:
  "importsAttempted (xs @ ys) = importsAttempted xs @ importsAttempted ys"
  by (induction xs rule: importsAttempted.induct) simp_all

lemma conditionsWritten_append:
  "conditionsWritten (xs @ ys) = conditionsWritten xs @ conditionsWritten ys"
  by (induction xs rule: conditionsWritten.induct) simp_all

lemma setCreatedViaAnnotation_quiet:
  "importsAttempted (snd (snd (setCreatedViaAnnotation k api deployment cluster))) = [] \<and>
   conditionsWritten (snd (snd (setCreatedViaAnnotation k api deployment cluster))) = []"
  by (simp add: setCreatedViaAnnotation_def Let_def split: prod.splits option.splits)

lemma removeImportFinalizer_quiet:
  "importsAttempted (snd (snd (removeImportFinalizer k api deployment))) = [] \<and>
   conditionsWritten (snd (snd (removeImportFinalizer k api deployment))) = []"
  by (simp add: removeImportFinalizer_def Let_def split: option.splits)

lemma reconcileImport_eq:
  "reconcileImport api clusterName hiveClient importSecret =
     (case ImportManagedClusterFromSecret api hiveClient importSecret of
        None \<Rightarrow>
          (let condition = \<lparr> Type = ''ManagedClusterImportSucceeded'', Status = ConditionTrue,
                 Message = ''Import succeeded'', Reason = ''ManagedClusterImported'' \<rparr>
           in (Returned (emptyResult,
                 case UpdateManagedClusterStatus api clusterName condition of
                   None \<Rightarrow> None | Some err' \<Rightarrow> Some (Aggregate [err'])),
               [ImportManagedCluster hiveClient importSecret, UpdateStatus clusterName condition]))
      | Some err \<Rightarrow>
          (let condition = \<lparr> Type = ''ManagedClusterImportSucceeded'', Status = ConditionFalse,
                 Message = ''Unable to import '' @ clusterName @ '': '' @ ErrorText err,
                 Reason = ''ManagedClusterNotImported'' \<rparr>
           in (Returned (emptyResult,
                 case UpdateManagedClusterStatus api clusterName condition of
                   None \<Rightarrow> Some (Aggregate [err]) | Some err' \<Rightarrow> Some (Aggregate [err, err'])),
               [ImportManagedCluster hiveClient importSecret, UpdateStatus clusterName condition])))"
  by (simp add: reconcileImport_def NewAggregate_def Let_def split: option.splits)

lemma Reconcile_gatesPassed:
  assumes "gatesPassed k api clusterName deployment cluster acts"
  shows "Reconcile k api clusterName =
     (case reconcileInstalled k api clusterName deployment of (out, acts') \<Rightarrow> (out, acts @ acts'))"
proof -
  obtain e c' a where r: "setCreatedViaAnnotation k api deployment cluster = (e, c', a)"
    by (cases "setCreatedViaAnnotation k api deployment cluster") auto
  with assms have "e = None" "a = acts" by (simp_all add: gatesPassed_def)
  with assms r show ?thesis
    by (simp add: gatesPassed_def Reconcile_def unclaimed_def)
qed

lemma reconcileInstalled_ready:
  assumes "autoImportSecretAbsent k api clusterName"
    and "remoteClientReady api clusterName deployment hiveClient"
    and "ImportSecretLister api clusterName (clusterName @ ''-'' @ ImportSecretNameSuffix k) = Inr importSecret"
    and "klusterletWorkCount k api clusterName = Some 2"
  shows "reconcileInstalled k api clusterName deployment =
           reconcileImport api clusterName hiveClient importSecret"
  using assms
  by (auto simp: reconcileInstalled_def autoImportSecretAbsent_def remoteClientReady_def
      klusterletWorkCount_def Let_def split: sum.splits option.splits)

lemma Reconcile_ready:
  assumes "readyToImport k api clusterName deployment cluster acts hiveClient importSecret"
  shows "Reconcile k api clusterName =
     (case reconcileImport api clusterName hiveClient importSecret of
        (out, acts') \<Rightarrow> (out, acts @ acts'))"
proof -
  from assms have g: "gatesPassed k api clusterName deployment cluster acts"
    and i: "reconcileInstalled k api clusterName deployment =
              reconcileImport api clusterName hiveClient importSecret"
    by (simp_all add: readyToImport_def reconcileInstalled_ready)
  show ?thesis
    by (simp add: Reconcile_gatesPassed [OF g] i)
qed

lemma reconcileInstalled_import_only_if:
  assumes "(hiveClient, importSecret) \<in> set (importsAttempted (snd (reconcileInstalled k api clusterName deployment)))"
  shows "autoImportSecretAbsent k api clusterName \<and>
    remoteClientReady api clusterName deployment hiveClient \<and>
    ImportSecretLister api clusterName (clusterName @ ''-'' @ ImportSecretNameSuffix k) = Inr importSecret \<and>
    klusterletWorkCount k api clusterName = Some 2"
  using assms
  by (auto simp: reconcileInstalled_def reconcileImport_def autoImportSecretAbsent_def remoteClientReady_def
      klusterletWorkCount_def Let_def split: sum.splits option.splits if_splits prod.splits)

lemma Reconcile_import_only_if:
  assumes "(hiveClient, importSecret) \<in> set (importsAttempted (snd (Reconcile k api clusterName)))"
  shows "\<exists>deployment cluster acts.
           readyToImport k api clusterName deployment cluster acts hiveClient importSecret"
proof (cases "getClusterDeployment api clusterName clusterName")
  case (Inl err)
  with assms show ?thesis by (simp add: Reconcile_def split: if_splits)
next
  case (Inr deployment)
  note cd = this
  show ?thesis
  proof (cases "IsZero (DeletionTimestamp deployment)")
    case False
    with assms cd removeImportFinalizer_quiet [of k api deployment] show ?thesis
      by (simp add: Reconcile_def split: prod.splits)
  next
    case True
    note live = this
    show ?thesis
    proof (cases "getManagedCluster api clusterName")
      case (Inl err)
      with assms cd live show ?thesis by (simp add: Reconcile_def split: if_splits)
    next
      case (Inr cluster)
      obtain e c' a where r: "setCreatedViaAnnotation k api deployment cluster = (e, c', a)"
        by (cases "setCreatedViaAnnotation k api deployment cluster") auto
      have quiet: "importsAttempted a = []"
        using setCreatedViaAnnotation_quiet [of k api deployment cluster] r by simp
      from assms cd live Inr r quiet
      have g: "Installed (Spec deployment) \<and> \<not> unclaimed deployment \<and> e = None \<and>
          (hiveClient, importSecret) \<in> set (importsAttempted (snd (reconcileInstalled k api clusterName deployment)))"
        by (auto simp: Reconcile_def unclaimed_def importsAttempted_append
            split: if_splits option.splits prod.splits)
      then have "gatesPassed k api clusterName deployment cluster a"
        using cd live Inr r by (simp add: gatesPassed_def)
      moreover note reconcileInstalled_import_only_if [of hiveClient importSecret k api clusterName deployment]
      ultimately have "readyToImport k api clusterName deployment cluster a hiveClient importSecret"
        using g by (simp add: readyToImport_def)
      then show ?thesis by blast
    qed
  qed
qed

lemma c1_annotation:
  "setCreatedViaAnnotation specConstants c1API c1Deployment c1Cluster = (None, c1Annotated, c1Acts)"
  by (simp add: setCreatedViaAnnotation_def MergeMap_def HasSuffix_def mapIndex_def Let_def
      specConstants_def c1API_def c1Deployment_def c1Cluster_def c1Annotated_def c1Acts_def
      c1Spec_def mkDeployment_def mkCluster_def)

lemma c1_works: "length (filter (workSelector specConstants) c1Works) = 2"
  by (simp add: c1Works_def workSelector_def mkKlusterletWork_def mkWork_def)

lemma c1_ready:
  "readyToImport specConstants c1API ''c1'' c1Deployment c1Cluster c1Acts c1Client c1ImportSecret"
proof -
  have "gatesPassed specConstants c1API ''c1'' c1Deployment c1Cluster c1Acts"
    unfolding gatesPassed_def c1_annotation
    by (simp add: c1API_def c1Deployment_def c1Spec_def mkDeployment_def IsZero_def unclaimed_def)
  moreover have "autoImportSecretAbsent specConstants c1API ''c1''"
    by (simp add: autoImportSecretAbsent_def c1API_def notFound_def)
  moreover have "remoteClientReady c1API ''c1'' c1Deployment c1Client"
    by (simp add: remoteClientReady_def c1API_def c1Deployment_def c1Spec_def mkDeployment_def)
  moreover have "ImportSecretLister c1API ''c1'' (''c1'' @ ''-'' @ ImportSecretNameSuffix specConstants) = Inr c1ImportSecret"
    by (simp add: c1API_def specConstants_def)
  moreover have "klusterletWorkCount specConstants c1API ''c1'' = Some 2"
    using c1_works by (simp add: klusterletWorkCount_def c1API_def)
  ultimately show ?thesis by (simp add: readyToImport_def)
qed

lemma setCreatedViaAnnotation_outcomes:
  "setCreatedViaAnnotation k (api\<lparr>ImportManagedClusterFromSecret := f, UpdateManagedClusterStatus := g\<rparr>) =
   setCreatedViaAnnotation k api"
  by (simp add: fun_eq_iff setCreatedViaAnnotation_def Let_def split: prod.splits option.splits)

lemma remoteClientReady_outcomes:
  "remoteClientReady (api\<lparr>ImportManagedClusterFromSecret := f, UpdateManagedClusterStatus := g\<rparr>) =
   remoteClientReady api"
  by (simp add: fun_eq_iff remoteClientReady_def split: option.splits sum.splits)

lemma readyToImport_outcomes:
  "readyToImport k (api\<lparr>ImportManagedClusterFromSecret := f, UpdateManagedClusterStatus := g\<rparr>) =
   readyToImport k api"
  by (simp add: fun_eq_iff readyToImport_def gatesPassed_def setCreatedViaAnnotation_outcomes
      autoImportSecretAbsent_def remoteClientReady_outcomes klusterletWorkCount_def)

lemma Reconcile_ready_imports:
  assumes "readyToImport k api clusterName deployment cluster acts hiveClient importSecret"
  shows "importsAttempted (snd (Reconcile k api clusterName)) = [(hiveClient, importSecret)]"
proof -
  have quiet: "importsAttempted acts = []"
    using assms setCreatedViaAnnotation_quiet [of k api deployment cluster]
    by (auto simp: readyToImport_def gatesPassed_def)
  show ?thesis
    unfolding Reconcile_ready [OF assms] reconcileImport_eq
    by (simp add: Let_def importsAttempted_append quiet split: option.splits)
qed

text \<open>
  C4. When all readiness gates pass, the run attempts the import once and writes exactly
  one condition on the cluster record: of type \<^verbatim>\<open>ManagedClusterImportSucceeded\<close>, with
  status true and reason \<^verbatim>\<open>ManagedClusterImported\<close> when the import succeeds, and with
  status false, reason \<^verbatim>\<open>ManagedClusterNotImported\<close> and a message that ends in the text
  of the error when the import fails. The returned error is the aggregate of the error
  of the import and the error of the write of the condition, of both when both fail.
\<close>

theorem Reconcile_import_condition:
  assumes "readyToImport k api clusterName deployment cluster acts hiveClient importSecret"
  shows "importsAttempted (snd (Reconcile k api clusterName)) = [(hiveClient, importSecret)] \<and>
    (ImportManagedClusterFromSecret api hiveClient importSecret = None \<longrightarrow>
       conditionsWritten (snd (Reconcile k api clusterName)) =
         [(clusterName,
           \<lparr> Type = ''ManagedClusterImportSucceeded'', Status = ConditionTrue,
             Message = ''Import succeeded'', Reason = ''ManagedClusterImported'' \<rparr>)]) \<and>
    (\<forall>err. ImportManagedClusterFromSecret api hiveClient importSecret = Some err \<longrightarrow>
       conditionsWritten (snd (Reconcile k api clusterName)) =
         [(clusterName,
           \<lparr> Type = ''ManagedClusterImportSucceeded'', Status = ConditionFalse,
             Message = ''Unable to import '' @ clusterName @ '': '' @ ErrorText err,
             Reason = ''ManagedClusterNotImported'' \<rparr>)]) \<and>
    (\<exists>condition. conditionsWritten (snd (Reconcile k api clusterName)) = [(clusterName, condition)] \<and>
       fst (Reconcile k api clusterName) =
         Returned (emptyResult,
           case (ImportManagedClusterFromSecret api hiveClient importSecret,
                 UpdateManagedClusterStatus api clusterName condition) of
             (None, None) \<Rightarrow> None
           | (Some err, None) \<Rightarrow> Some (Aggregate [err])
           | (None, Some err') \<Rightarrow> Some (Aggregate [err'])
           | (Some err, Some err') \<Rightarrow> Some (Aggregate [err, err'])))"
proof -
  have quiet: "importsAttempted acts = []" "conditionsWritten acts = []"
    using assms setCreatedViaAnnotation_quiet [of k api deployment cluster]
    by (auto simp: readyToImport_def gatesPassed_def)
  show ?thesis
    unfolding Reconcile_ready [OF assms] reconcileImport_eq
    by (cases "ImportManagedClusterFromSecret api hiveClient importSecret")
      (auto simp: Let_def importsAttempted_append conditionsWritten_append quiet split: option.splits)
qed

theorem Reconcile_import_condition_witness:
  "conditionsWritten (snd (Reconcile specConstants c1API ''c1'')) =
     [(''c1'', \<lparr> Type = ''ManagedClusterImportSucceeded'', Status = ConditionTrue,
        Message = ''Import succeeded'', Reason = ''ManagedClusterImported'' \<rparr>)] \<and>
   conditionsWritten (snd (Reconcile specConstants
       (c1API\<lparr>ImportManagedClusterFromSecret := \<lambda>hiveClient secret. Some (ApiError False ''connection refused''),
              UpdateManagedClusterStatus := \<lambda>name condition. Some (ApiError False ''conflict'')\<rparr>) ''c1'')) =
     [(''c1'', \<lparr> Type = ''ManagedClusterImportSucceeded'', Status = ConditionFalse,
        Message = ''Unable to import c1: connection refused'', Reason = ''ManagedClusterNotImported'' \<rparr>)] \<and>
   fst (Reconcile specConstants
       (c1API\<lparr>ImportManagedClusterFromSecret := \<lambda>hiveClient secret. Some (ApiError False ''connection refused''),
              UpdateManagedClusterStatus := \<lambda>name condition. Some (ApiError False ''conflict'')\<rparr>) ''c1'') =
     Returned (emptyResult, Some (Aggregate [ApiError False ''connection refused'', ApiError False ''conflict'']))"
proof -
  let ?bad = "c1API\<lparr>ImportManagedClusterFromSecret := \<lambda>hiveClient secret. Some (ApiError False ''connection refused''),
              UpdateManagedClusterStatus := \<lambda>name condition. Some (ApiError False ''conflict'')\<rparr>"
  have ok: "ImportManagedClusterFromSecret c1API c1Client c1ImportSecret = None"
    by (simp add: c1API_def)
  have bad: "readyToImport specConstants ?bad ''c1'' c1Deployment c1Cluster c1Acts c1Client c1ImportSecret"
    using c1_ready by (simp only: readyToImport_outcomes)
  show ?thesis
    using Reconcile_import_condition [OF c1_ready] Reconcile_import_condition [OF bad] ok
    by auto
qed

section \<open>The reconciler: the gates\<close>

lemma reconcileInstalled_not_two:
  assumes "autoImportSecretAbsent k api clusterName"
    and "remoteClientReady api clusterName deployment hiveClient"
    and "ImportSecretLister api clusterName (clusterName @ ''-'' @ ImportSecretNameSuffix k) = Inr importSecret"
    and "workCountNotTwo k api clusterName"
  shows "reconcileInstalled k api clusterName deployment = (Returned (emptyResult, None), [])"
  using assms
  by (auto simp: reconcileInstalled_def autoImportSecretAbsent_def remoteClientReady_def
      klusterletWorkCount_def workCountNotTwo_def Let_def split: sum.splits option.splits)

lemma reconcileInstalled_import_missing:
  assumes "autoImportSecretAbsent k api clusterName"
    and "remoteClientReady api clusterName deployment hiveClient"
    and "importSecretMissing k api clusterName"
  shows "reconcileInstalled k api clusterName deployment = (Returned (emptyResult, None), [])"
  using assms
  by (auto simp: reconcileInstalled_def autoImportSecretAbsent_def remoteClientReady_def
      importSecretMissing_def Let_def split: sum.splits option.splits)

lemma reconcileInstalled_auto_import:
  assumes "autoImportSecretPresent k api clusterName"
  shows "reconcileInstalled k api clusterName deployment = (Returned (emptyResult, None), [])"
  using assms
  by (auto simp: reconcileInstalled_def autoImportSecretPresent_def split: sum.splits)

lemma reconcileInstalled_nil_metadata:
  "fst (reconcileInstalled k api clusterName deployment) = Panicked \<longleftrightarrow>
     autoImportSecretAbsent k api clusterName \<and> ClusterMetadata (Spec deployment) = None"
  by (auto simp: reconcileInstalled_def reconcileImport_def autoImportSecretAbsent_def Let_def
      split: sum.splits option.splits prod.splits)

lemma setCreatedViaAnnotation_cong:
  "patchManagedCluster api = patchManagedCluster api' \<Longrightarrow>
   setCreatedViaAnnotation k api = setCreatedViaAnnotation k api'"
  by (simp add: fun_eq_iff setCreatedViaAnnotation_def Let_def split: prod.splits option.splits)

lemma c1_gates:
  assumes "getClusterDeployment api = getClusterDeployment c1API"
    and "getManagedCluster api = getManagedCluster c1API"
    and "patchManagedCluster api = patchManagedCluster c1API"
  shows "gatesPassed specConstants api ''c1'' c1Deployment c1Cluster c1Acts"
proof -
  have "setCreatedViaAnnotation specConstants api c1Deployment c1Cluster = (None, c1Annotated, c1Acts)"
    using setCreatedViaAnnotation_cong [OF assms(3), of specConstants] c1_annotation by simp
  then show ?thesis
    using assms(1,2)
    by (simp add: gatesPassed_def c1API_def c1Deployment_def c1Spec_def mkDeployment_def
        IsZero_def unclaimed_def)
qed

lemma c1_client:
  assumes "kubeClientGetSecret api = kubeClientGetSecret c1API"
    and "GenerateClientFromSecret api = GenerateClientFromSecret c1API"
  shows "remoteClientReady api ''c1'' c1Deployment c1Client"
  using assms
  by (simp add: remoteClientReady_def c1API_def c1Deployment_def c1Spec_def mkDeployment_def)

lemma c1_no_auto_import:
  assumes "AutoImportSecretLister api = AutoImportSecretLister c1API"
  shows "autoImportSecretAbsent specConstants api ''c1''"
  using assms by (simp add: autoImportSecretAbsent_def c1API_def notFound_def)

text \<open>
  C7, as the claim states it: a count of labelled works other than two is a no-op that
  returns success. With three labelled works and the read of the credential secret
  refused, the run returns the error of the read: the read comes before the count.
\<close>

theorem Reconcile_work_count_counterexample:
  "klusterletWorkCount specConstants
     (c1API\<lparr>kubeClientGetSecret := \<lambda>ns name. Inl (ApiError False ''forbidden''),
            KlusterletWorkLister := \<lambda>ns. Inr (mkKlusterletWork specConstants ''extra'' ''c1'' # c1Works)\<rparr>)
     ''c1'' = Some 3 \<and>
   Reconcile specConstants
     (c1API\<lparr>kubeClientGetSecret := \<lambda>ns name. Inl (ApiError False ''forbidden''),
            KlusterletWorkLister := \<lambda>ns. Inr (mkKlusterletWork specConstants ''extra'' ''c1'' # c1Works)\<rparr>)
     ''c1'' = (Returned (emptyResult, Some (Plain (ApiError False ''forbidden''))), c1Acts)"
proof -
  let ?three = "c1API\<lparr>kubeClientGetSecret := \<lambda>ns name. Inl (ApiError False ''forbidden''),
            KlusterletWorkLister := \<lambda>ns. Inr (mkKlusterletWork specConstants ''extra'' ''c1'' # c1Works)\<rparr>"
  have g: "gatesPassed specConstants ?three ''c1'' c1Deployment c1Cluster c1Acts"
    by (rule c1_gates) simp_all
  have i: "reconcileInstalled specConstants ?three ''c1'' c1Deployment =
      (Returned (emptyResult, Some (Plain (ApiError False ''forbidden''))), [])"
    by (simp add: reconcileInstalled_def c1API_def notFound_def c1Deployment_def c1Spec_def
        mkDeployment_def)
  have n: "klusterletWorkCount specConstants ?three ''c1'' = Some 3"
    using c1_works by (simp add: klusterletWorkCount_def workSelector_def mkKlusterletWork_def)
  show ?thesis
    using n by (simp add: Reconcile_gatesPassed [OF g] i)
qed

lemma reconcileInstalled_override_fails:
  "AutoImportSecretLister api clusterName (AutoImportSecretName k) = Inl e \<Longrightarrow> \<not> IsNotFound e \<Longrightarrow>
   reconcileInstalled k api clusterName deployment = (Returned (emptyResult, Some (Plain e)), [])"
  by (simp add: reconcileInstalled_def)

lemma reconcileInstalled_credential_fails:
  "autoImportSecretAbsent k api clusterName \<Longrightarrow>
   ClusterMetadata (Spec deployment) = Some metadata \<Longrightarrow>
   kubeClientGetSecret api clusterName (AdminKubeconfigSecretRef metadata) = Inl e \<Longrightarrow>
   reconcileInstalled k api clusterName deployment = (Returned (emptyResult, Some (Plain e)), [])"
  by (auto simp: reconcileInstalled_def autoImportSecretAbsent_def split: sum.splits)

lemma reconcileInstalled_client_fails:
  "autoImportSecretAbsent k api clusterName \<Longrightarrow>
   ClusterMetadata (Spec deployment) = Some metadata \<Longrightarrow>
   kubeClientGetSecret api clusterName (AdminKubeconfigSecretRef metadata) = Inr hiveSecret \<Longrightarrow>
   GenerateClientFromSecret api hiveSecret = Inl e \<Longrightarrow>
   reconcileInstalled k api clusterName deployment = (Returned (emptyResult, Some (Plain e)), [])"
  by (auto simp: reconcileInstalled_def autoImportSecretAbsent_def split: sum.splits)

lemma reconcileInstalled_payload_fails:
  "autoImportSecretAbsent k api clusterName \<Longrightarrow>
   remoteClientReady api clusterName deployment client \<Longrightarrow>
   ImportSecretLister api clusterName (clusterName @ ''-'' @ ImportSecretNameSuffix k) = Inl e \<Longrightarrow>
   \<not> IsNotFound e \<Longrightarrow>
   reconcileInstalled k api clusterName deployment = (Returned (emptyResult, Some (Plain e)), [])"
  by (auto simp: reconcileInstalled_def autoImportSecretAbsent_def remoteClientReady_def
      split: sum.splits option.splits)

lemma reconcileInstalled_listing_fails:
  "autoImportSecretAbsent k api clusterName \<Longrightarrow>
   remoteClientReady api clusterName deployment client \<Longrightarrow>
   ImportSecretLister api clusterName (clusterName @ ''-'' @ ImportSecretNameSuffix k) =
     Inr secret \<Longrightarrow>
   KlusterletWorkLister api clusterName = Inl e \<Longrightarrow>
   reconcileInstalled k api clusterName deployment = (Returned (emptyResult, Some (Plain e)), [])"
  by (auto simp: reconcileInstalled_def autoImportSecretAbsent_def remoteClientReady_def
      split: sum.splits option.splits)

lemma Reconcile_install_read_fails:
  "getClusterDeployment api clusterName clusterName = Inl e \<Longrightarrow> \<not> IsNotFound e \<Longrightarrow>
   Reconcile k api clusterName = (Returned (emptyResult, Some (Plain e)), [])"
  by (simp add: Reconcile_def)

lemma Reconcile_cluster_read_fails:
  "getClusterDeployment api clusterName clusterName = Inr deployment \<Longrightarrow>
   IsZero (DeletionTimestamp deployment) \<Longrightarrow>
   getManagedCluster api clusterName = Inl e \<Longrightarrow> \<not> IsNotFound e \<Longrightarrow>
   Reconcile k api clusterName = (Returned (emptyResult, Some (Plain e)), [])"
  by (simp add: Reconcile_def)

lemma Reconcile_annotation_fails:
  "getClusterDeployment api clusterName clusterName = Inr deployment \<Longrightarrow>
   IsZero (DeletionTimestamp deployment) \<Longrightarrow>
   getManagedCluster api clusterName = Inr cluster \<Longrightarrow>
   Installed (Spec deployment) \<Longrightarrow> \<not> unclaimed deployment \<Longrightarrow>
   fst (setCreatedViaAnnotation k api deployment cluster) = Some e \<Longrightarrow>
   snd (snd (setCreatedViaAnnotation k api deployment cluster)) = acts \<Longrightarrow>
   Reconcile k api clusterName = (Returned (emptyResult, Some (Plain e)), acts)"
  by (cases "setCreatedViaAnnotation k api deployment cluster")
    (auto simp: Reconcile_def unclaimed_def split: option.splits)

text \<open>
  C7, amended. An import that a run attempts finds the install record present and
  installed, the payload secret present (it is the secret imported) and exactly two
  labelled works in the namespace of the cluster, and it is the only import of the run.
  With any other count of labelled works no import is attempted; and the run that
  reaches the count, every step before it having succeeded, and finds it other than two
  returns no error, having done nothing but converge the annotation. A step that fails
  before the count is returned as the error of the run, whatever the count: the read of
  the install record, of the cluster record, of the auto-import secret or of the payload
  secret failing otherwise than by not finding the object, the patch of the annotation,
  the read of the credential secret, the construction of the client, and the listing of
  the works.
\<close>

theorem Reconcile_applies_only_when_ready:
  "((hiveClient, importSecret) \<in> set (importsAttempted (snd (Reconcile k api clusterName))) \<longrightarrow>
      (\<exists>deployment. getClusterDeployment api clusterName clusterName = Inr deployment \<and>
         Installed (Spec deployment)) \<and>
      ImportSecretLister api clusterName (clusterName @ ''-'' @ ImportSecretNameSuffix k) =
        Inr importSecret \<and>
      klusterletWorkCount k api clusterName = Some 2 \<and>
      importsAttempted (snd (Reconcile k api clusterName)) = [(hiveClient, importSecret)]) \<and>
   (klusterletWorkCount k api clusterName \<noteq> Some 2 \<longrightarrow>
      importsAttempted (snd (Reconcile k api clusterName)) = []) \<and>
   (gatesPassed k api clusterName deployment cluster acts \<and>
    autoImportSecretAbsent k api clusterName \<and>
    remoteClientReady api clusterName deployment client \<and>
    ImportSecretLister api clusterName (clusterName @ ''-'' @ ImportSecretNameSuffix k) =
      Inr secret \<and>
    workCountNotTwo k api clusterName \<longrightarrow>
      Reconcile k api clusterName = (Returned (emptyResult, None), acts) \<and>
      importsAttempted acts = [] \<and> conditionsWritten acts = []) \<and>
   (getClusterDeployment api clusterName clusterName = Inl e \<and> \<not> IsNotFound e \<longrightarrow>
      Reconcile k api clusterName = (Returned (emptyResult, Some (Plain e)), [])) \<and>
   (getClusterDeployment api clusterName clusterName = Inr deployment \<and>
    IsZero (DeletionTimestamp deployment) \<and>
    getManagedCluster api clusterName = Inl e \<and> \<not> IsNotFound e \<longrightarrow>
      Reconcile k api clusterName = (Returned (emptyResult, Some (Plain e)), [])) \<and>
   (getClusterDeployment api clusterName clusterName = Inr deployment \<and>
    IsZero (DeletionTimestamp deployment) \<and>
    getManagedCluster api clusterName = Inr cluster \<and>
    Installed (Spec deployment) \<and> \<not> unclaimed deployment \<and>
    fst (setCreatedViaAnnotation k api deployment cluster) = Some e \<and>
    snd (snd (setCreatedViaAnnotation k api deployment cluster)) = acts \<longrightarrow>
      Reconcile k api clusterName = (Returned (emptyResult, Some (Plain e)), acts)) \<and>
   (gatesPassed k api clusterName deployment cluster acts \<and>
    AutoImportSecretLister api clusterName (AutoImportSecretName k) = Inl e \<and>
    \<not> IsNotFound e \<longrightarrow>
      Reconcile k api clusterName = (Returned (emptyResult, Some (Plain e)), acts)) \<and>
   (gatesPassed k api clusterName deployment cluster acts \<and>
    autoImportSecretAbsent k api clusterName \<and>
    ClusterMetadata (Spec deployment) = Some metadata \<and>
    kubeClientGetSecret api clusterName (AdminKubeconfigSecretRef metadata) = Inl e \<longrightarrow>
      Reconcile k api clusterName = (Returned (emptyResult, Some (Plain e)), acts)) \<and>
   (gatesPassed k api clusterName deployment cluster acts \<and>
    autoImportSecretAbsent k api clusterName \<and>
    ClusterMetadata (Spec deployment) = Some metadata \<and>
    kubeClientGetSecret api clusterName (AdminKubeconfigSecretRef metadata) = Inr hiveSecret \<and>
    GenerateClientFromSecret api hiveSecret = Inl e \<longrightarrow>
      Reconcile k api clusterName = (Returned (emptyResult, Some (Plain e)), acts)) \<and>
   (gatesPassed k api clusterName deployment cluster acts \<and>
    autoImportSecretAbsent k api clusterName \<and>
    remoteClientReady api clusterName deployment client \<and>
    ImportSecretLister api clusterName (clusterName @ ''-'' @ ImportSecretNameSuffix k) = Inl e \<and>
    \<not> IsNotFound e \<longrightarrow>
      Reconcile k api clusterName = (Returned (emptyResult, Some (Plain e)), acts)) \<and>
   (gatesPassed k api clusterName deployment cluster acts \<and>
    autoImportSecretAbsent k api clusterName \<and>
    remoteClientReady api clusterName deployment client \<and>
    ImportSecretLister api clusterName (clusterName @ ''-'' @ ImportSecretNameSuffix k) =
      Inr secret \<and>
    KlusterletWorkLister api clusterName = Inl e \<longrightarrow>
      Reconcile k api clusterName = (Returned (emptyResult, Some (Plain e)), acts))"
proof -
  have applied: "(hiveClient, importSecret) \<in> set (importsAttempted (snd (Reconcile k api clusterName))) \<longrightarrow>
      (\<exists>deployment. getClusterDeployment api clusterName clusterName = Inr deployment \<and>
         Installed (Spec deployment)) \<and>
      ImportSecretLister api clusterName (clusterName @ ''-'' @ ImportSecretNameSuffix k) =
        Inr importSecret \<and>
      klusterletWorkCount k api clusterName = Some 2 \<and>
      importsAttempted (snd (Reconcile k api clusterName)) = [(hiveClient, importSecret)]"
  proof
    assume "(hiveClient, importSecret) \<in> set (importsAttempted (snd (Reconcile k api clusterName)))"
    then obtain d c acts' where r: "readyToImport k api clusterName d c acts' hiveClient importSecret"
      using Reconcile_import_only_if by blast
    then have "\<exists>deployment. getClusterDeployment api clusterName clusterName = Inr deployment \<and>
         Installed (Spec deployment)"
      by (auto simp: readyToImport_def gatesPassed_def)
    moreover from r have "ImportSecretLister api clusterName
        (clusterName @ ''-'' @ ImportSecretNameSuffix k) = Inr importSecret"
      by (simp add: readyToImport_def)
    moreover from r have "klusterletWorkCount k api clusterName = Some 2"
      by (simp add: readyToImport_def)
    moreover from r have "importsAttempted (snd (Reconcile k api clusterName)) =
        [(hiveClient, importSecret)]"
      by (rule Reconcile_ready_imports)
    ultimately show "(\<exists>deployment. getClusterDeployment api clusterName clusterName = Inr deployment \<and>
         Installed (Spec deployment)) \<and>
      ImportSecretLister api clusterName (clusterName @ ''-'' @ ImportSecretNameSuffix k) =
        Inr importSecret \<and>
      klusterletWorkCount k api clusterName = Some 2 \<and>
      importsAttempted (snd (Reconcile k api clusterName)) = [(hiveClient, importSecret)]"
      by blast
  qed
  have other: "klusterletWorkCount k api clusterName \<noteq> Some 2 \<longrightarrow>
      importsAttempted (snd (Reconcile k api clusterName)) = []"
  proof
    assume n: "klusterletWorkCount k api clusterName \<noteq> Some 2"
    show "importsAttempted (snd (Reconcile k api clusterName)) = []"
    proof (rule ccontr)
      assume "importsAttempted (snd (Reconcile k api clusterName)) \<noteq> []"
      then obtain hc s where "(hc, s) \<in> set (importsAttempted (snd (Reconcile k api clusterName)))"
        by (cases "importsAttempted (snd (Reconcile k api clusterName))") auto
      then obtain d c acts' where "readyToImport k api clusterName d c acts' hc s"
        using Reconcile_import_only_if by blast
      with n show False by (simp add: readyToImport_def)
    qed
  qed
  have reached: "gatesPassed k api clusterName deployment cluster acts \<and>
      autoImportSecretAbsent k api clusterName \<and>
      remoteClientReady api clusterName deployment client \<and>
      ImportSecretLister api clusterName (clusterName @ ''-'' @ ImportSecretNameSuffix k) =
        Inr secret \<and>
      workCountNotTwo k api clusterName \<longrightarrow>
        Reconcile k api clusterName = (Returned (emptyResult, None), acts) \<and>
        importsAttempted acts = [] \<and> conditionsWritten acts = []"
  proof
    assume h: "gatesPassed k api clusterName deployment cluster acts \<and>
      autoImportSecretAbsent k api clusterName \<and>
      remoteClientReady api clusterName deployment client \<and>
      ImportSecretLister api clusterName (clusterName @ ''-'' @ ImportSecretNameSuffix k) =
        Inr secret \<and>
      workCountNotTwo k api clusterName"
    then have g: "gatesPassed k api clusterName deployment cluster acts" by simp
    from h have "reconcileInstalled k api clusterName deployment = (Returned (emptyResult, None), [])"
      by (blast intro: reconcileInstalled_not_two)
    then have "Reconcile k api clusterName = (Returned (emptyResult, None), acts)"
      by (simp add: Reconcile_gatesPassed [OF g])
    moreover from g setCreatedViaAnnotation_quiet [of k api deployment cluster]
    have "importsAttempted acts = []" and "conditionsWritten acts = []"
      by (auto simp: gatesPassed_def)
    ultimately show "Reconcile k api clusterName = (Returned (emptyResult, None), acts) \<and>
        importsAttempted acts = [] \<and> conditionsWritten acts = []"
      by blast
  qed
  have later: "Reconcile k api clusterName = (Returned (emptyResult, Some (Plain e)), acts)"
    if "gatesPassed k api clusterName deployment cluster acts"
      and "reconcileInstalled k api clusterName deployment =
        (Returned (emptyResult, Some (Plain e)), [])"
    using that by (simp add: Reconcile_gatesPassed)
  have install: "getClusterDeployment api clusterName clusterName = Inl e \<and> \<not> IsNotFound e \<longrightarrow>
      Reconcile k api clusterName = (Returned (emptyResult, Some (Plain e)), [])"
    by (simp add: Reconcile_install_read_fails)
  have clusterRead: "getClusterDeployment api clusterName clusterName = Inr deployment \<and>
      IsZero (DeletionTimestamp deployment) \<and>
      getManagedCluster api clusterName = Inl e \<and> \<not> IsNotFound e \<longrightarrow>
        Reconcile k api clusterName = (Returned (emptyResult, Some (Plain e)), [])"
    by (simp add: Reconcile_cluster_read_fails)
  have patch: "getClusterDeployment api clusterName clusterName = Inr deployment \<and>
      IsZero (DeletionTimestamp deployment) \<and>
      getManagedCluster api clusterName = Inr cluster \<and>
      Installed (Spec deployment) \<and> \<not> unclaimed deployment \<and>
      fst (setCreatedViaAnnotation k api deployment cluster) = Some e \<and>
      snd (snd (setCreatedViaAnnotation k api deployment cluster)) = acts \<longrightarrow>
        Reconcile k api clusterName = (Returned (emptyResult, Some (Plain e)), acts)"
    by (intro impI, elim conjE) (rule Reconcile_annotation_fails)
  have override: "gatesPassed k api clusterName deployment cluster acts \<and>
      AutoImportSecretLister api clusterName (AutoImportSecretName k) = Inl e \<and>
      \<not> IsNotFound e \<longrightarrow>
        Reconcile k api clusterName = (Returned (emptyResult, Some (Plain e)), acts)"
    by (intro impI, elim conjE) (rule later, assumption, rule reconcileInstalled_override_fails)
  have credential: "gatesPassed k api clusterName deployment cluster acts \<and>
      autoImportSecretAbsent k api clusterName \<and>
      ClusterMetadata (Spec deployment) = Some metadata \<and>
      kubeClientGetSecret api clusterName (AdminKubeconfigSecretRef metadata) = Inl e \<longrightarrow>
        Reconcile k api clusterName = (Returned (emptyResult, Some (Plain e)), acts)"
    by (intro impI, elim conjE) (rule later, assumption, rule reconcileInstalled_credential_fails)
  have construct: "gatesPassed k api clusterName deployment cluster acts \<and>
      autoImportSecretAbsent k api clusterName \<and>
      ClusterMetadata (Spec deployment) = Some metadata \<and>
      kubeClientGetSecret api clusterName (AdminKubeconfigSecretRef metadata) = Inr hiveSecret \<and>
      GenerateClientFromSecret api hiveSecret = Inl e \<longrightarrow>
        Reconcile k api clusterName = (Returned (emptyResult, Some (Plain e)), acts)"
    by (intro impI, elim conjE) (rule later, assumption, rule reconcileInstalled_client_fails)
  have payload: "gatesPassed k api clusterName deployment cluster acts \<and>
      autoImportSecretAbsent k api clusterName \<and>
      remoteClientReady api clusterName deployment client \<and>
      ImportSecretLister api clusterName (clusterName @ ''-'' @ ImportSecretNameSuffix k) = Inl e \<and>
      \<not> IsNotFound e \<longrightarrow>
        Reconcile k api clusterName = (Returned (emptyResult, Some (Plain e)), acts)"
    by (intro impI, elim conjE) (rule later, assumption, rule reconcileInstalled_payload_fails)
  have listing: "gatesPassed k api clusterName deployment cluster acts \<and>
      autoImportSecretAbsent k api clusterName \<and>
      remoteClientReady api clusterName deployment client \<and>
      ImportSecretLister api clusterName (clusterName @ ''-'' @ ImportSecretNameSuffix k) =
        Inr secret \<and>
      KlusterletWorkLister api clusterName = Inl e \<longrightarrow>
        Reconcile k api clusterName = (Returned (emptyResult, Some (Plain e)), acts)"
    by (intro impI, elim conjE) (rule later, assumption, rule reconcileInstalled_listing_fails)
  show ?thesis
    by (intro conjI) (fact applied other reached install clusterRead patch override credential
        construct payload listing)+
qed

theorem Reconcile_applies_only_when_ready_witness:
  "importsAttempted (snd (Reconcile specConstants c1API ''c1'')) = [(c1Client, c1ImportSecret)] \<and>
   klusterletWorkCount specConstants c1API ''c1'' = Some 2 \<and>
   Reconcile specConstants
     (c1API\<lparr>KlusterletWorkLister := \<lambda>ns. Inr [mkKlusterletWork specConstants ''c1-klusterlet'' ''c1'']\<rparr>)
     ''c1'' = (Returned (emptyResult, None), c1Acts) \<and>
   Reconcile specConstants
     (c1API\<lparr>KlusterletWorkLister := \<lambda>ns. Inl (ApiError False ''cache not synced'')\<rparr>)
     ''c1'' = (Returned (emptyResult, Some (Plain (ApiError False ''cache not synced''))), c1Acts)"
proof -
  let ?unlisted = "c1API\<lparr>KlusterletWorkLister := \<lambda>ns. Inl (ApiError False ''cache not synced'')\<rparr>"
  have gu: "gatesPassed specConstants ?unlisted ''c1'' c1Deployment c1Cluster c1Acts"
    by (rule c1_gates) simp_all
  have au: "autoImportSecretAbsent specConstants ?unlisted ''c1''"
    by (rule c1_no_auto_import) simp
  have cu: "remoteClientReady ?unlisted ''c1'' c1Deployment c1Client"
    by (rule c1_client) simp_all
  have su: "ImportSecretLister ?unlisted ''c1'' (''c1'' @ ''-'' @ ImportSecretNameSuffix specConstants) = Inr c1ImportSecret"
    by (simp add: c1API_def specConstants_def)
  have lu: "KlusterletWorkLister ?unlisted ''c1'' = Inl (ApiError False ''cache not synced'')"
    by simp
  from Reconcile_applies_only_when_ready [where k = specConstants and api = ?unlisted
      and clusterName = "''c1''" and deployment = c1Deployment and cluster = c1Cluster
      and acts = c1Acts and client = c1Client and secret = c1ImportSecret
      and e = "ApiError False ''cache not synced''", THEN conjunct2, THEN conjunct2,
      THEN conjunct2, THEN conjunct2, THEN conjunct2, THEN conjunct2, THEN conjunct2,
      THEN conjunct2, THEN conjunct2, THEN conjunct2] gu au cu su lu
  have unlisted: "Reconcile specConstants ?unlisted ''c1'' =
      (Returned (emptyResult, Some (Plain (ApiError False ''cache not synced''))), c1Acts)"
    by blast
  let ?one = "c1API\<lparr>KlusterletWorkLister := \<lambda>ns. Inr [mkKlusterletWork specConstants ''c1-klusterlet'' ''c1'']\<rparr>"
  have attempted: "(c1Client, c1ImportSecret) \<in> set (importsAttempted (snd (Reconcile specConstants c1API ''c1'')))"
    using Reconcile_ready_imports [OF c1_ready] by simp
  have g: "gatesPassed specConstants ?one ''c1'' c1Deployment c1Cluster c1Acts"
    by (rule c1_gates) simp_all
  have a: "autoImportSecretAbsent specConstants ?one ''c1''"
    by (rule c1_no_auto_import) simp
  have c: "remoteClientReady ?one ''c1'' c1Deployment c1Client"
    by (rule c1_client) simp_all
  have s: "ImportSecretLister ?one ''c1'' (''c1'' @ ''-'' @ ImportSecretNameSuffix specConstants) = Inr c1ImportSecret"
    by (simp add: c1API_def specConstants_def)
  have n: "workCountNotTwo specConstants ?one ''c1''"
    by (simp add: workCountNotTwo_def klusterletWorkCount_def workSelector_def mkKlusterletWork_def)
  from Reconcile_applies_only_when_ready [of c1Client c1ImportSecret specConstants c1API "''c1''",
      THEN conjunct1] attempted
  have first: "importsAttempted (snd (Reconcile specConstants c1API ''c1'')) = [(c1Client, c1ImportSecret)] \<and>
      klusterletWorkCount specConstants c1API ''c1'' = Some 2"
    by blast
  from Reconcile_applies_only_when_ready [of c1Client c1ImportSecret specConstants ?one "''c1''"
      c1Deployment c1Cluster c1Acts c1Client c1ImportSecret, THEN conjunct2, THEN conjunct2,
      THEN conjunct1] g a c s n
  have "Reconcile specConstants ?one ''c1'' = (Returned (emptyResult, None), c1Acts)"
    by blast
  with first unlisted show ?thesis by blast
qed

text \<open>
  C10. The run panics exactly when it passes the gates up to the annotation, finds no
  auto-import secret, and the install record has a nil \<^verbatim>\<open>ClusterMetadata\<close>: the name of
  the credential secret is read through the nil pointer. In every other case the run
  returns.
\<close>

theorem Reconcile_panics_iff_nil_metadata:
  "fst (Reconcile k api clusterName) = Panicked \<longleftrightarrow>
     (\<exists>deployment cluster acts.
        gatesPassed k api clusterName deployment cluster acts \<and>
        autoImportSecretAbsent k api clusterName \<and>
        ClusterMetadata (Spec deployment) = None)"
proof
  assume "\<exists>deployment cluster acts.
        gatesPassed k api clusterName deployment cluster acts \<and>
        autoImportSecretAbsent k api clusterName \<and>
        ClusterMetadata (Spec deployment) = None"
  then obtain d c a where g: "gatesPassed k api clusterName d c a"
    and n: "autoImportSecretAbsent k api clusterName \<and> ClusterMetadata (Spec d) = None"
    by blast
  from n have "fst (reconcileInstalled k api clusterName d) = Panicked"
    by (simp add: reconcileInstalled_nil_metadata)
  then show "fst (Reconcile k api clusterName) = Panicked"
    by (cases "reconcileInstalled k api clusterName d") (simp add: Reconcile_gatesPassed [OF g])
next
  assume p: "fst (Reconcile k api clusterName) = Panicked"
  show "\<exists>deployment cluster acts.
        gatesPassed k api clusterName deployment cluster acts \<and>
        autoImportSecretAbsent k api clusterName \<and>
        ClusterMetadata (Spec deployment) = None"
  proof (cases "getClusterDeployment api clusterName clusterName")
    case (Inl err)
    with p show ?thesis by (simp add: Reconcile_def split: if_splits)
  next
    case (Inr d)
    note cd = this
    show ?thesis
    proof (cases "IsZero (DeletionTimestamp d)")
      case False
      with p cd show ?thesis by (simp add: Reconcile_def split: prod.splits)
    next
      case True
      note live = this
      show ?thesis
      proof (cases "getManagedCluster api clusterName")
        case (Inl err)
        with p cd live show ?thesis by (simp add: Reconcile_def split: if_splits)
      next
        case (Inr c)
        obtain e c' a where r: "setCreatedViaAnnotation k api d c = (e, c', a)"
          by (cases "setCreatedViaAnnotation k api d c") auto
        from p cd live Inr r
        have g: "Installed (Spec d) \<and> \<not> unclaimed d \<and> e = None \<and>
            fst (reconcileInstalled k api clusterName d) = Panicked"
          by (auto simp: Reconcile_def unclaimed_def split: if_splits option.splits prod.splits)
        then have "gatesPassed k api clusterName d c a"
          using cd live Inr r by (simp add: gatesPassed_def)
        with g show ?thesis
          by (auto simp: reconcileInstalled_nil_metadata)
      qed
    qed
  qed
qed

theorem Reconcile_panics_iff_nil_metadata_witness:
  "fst (Reconcile specConstants
     (c1API\<lparr>getClusterDeployment :=
        \<lambda>ns name. Inr (c1Deployment\<lparr>Spec := c1Spec\<lparr>ClusterMetadata := None\<rparr>\<rparr>)\<rparr>) ''c1'') = Panicked \<and>
   fst (Reconcile specConstants c1API ''c1'') \<noteq> Panicked"
proof -
  let ?d = "c1Deployment\<lparr>Spec := c1Spec\<lparr>ClusterMetadata := None\<rparr>\<rparr>"
  let ?nil = "c1API\<lparr>getClusterDeployment := \<lambda>ns name. Inr ?d\<rparr>"
  have ann: "setCreatedViaAnnotation specConstants ?nil ?d c1Cluster = (None, c1Annotated, c1Acts)"
    by (simp add: setCreatedViaAnnotation_def MergeMap_def HasSuffix_def mapIndex_def Let_def
      specConstants_def c1API_def c1Deployment_def c1Cluster_def c1Annotated_def c1Acts_def
      c1Spec_def mkDeployment_def mkCluster_def)
  have g: "gatesPassed specConstants ?nil ''c1'' ?d c1Cluster c1Acts"
    unfolding gatesPassed_def ann
    by (simp add: c1API_def c1Deployment_def c1Spec_def mkDeployment_def IsZero_def unclaimed_def)
  have a: "autoImportSecretAbsent specConstants ?nil ''c1''"
    by (rule c1_no_auto_import) simp
  have m: "ClusterMetadata (Spec ?d) = None" by simp
  have p: "fst (Reconcile specConstants ?nil ''c1'') = Panicked"
    using Reconcile_panics_iff_nil_metadata [of specConstants ?nil "''c1''"] g a m by blast
  have "ClusterMetadata (Spec d) \<noteq> None" if "gatesPassed specConstants c1API ''c1'' d c acts" for d c acts
    using that by (auto simp: gatesPassed_def c1API_def c1Deployment_def c1Spec_def mkDeployment_def)
  then have "fst (Reconcile specConstants c1API ''c1'') \<noteq> Panicked"
    using Reconcile_panics_iff_nil_metadata [of specConstants c1API "''c1''"] by blast
  with p show ?thesis by blast
qed

section \<open>The reconciler: absent dependencies\<close>

lemma callFailed_intros:
  "getClusterDeployment api ns name = Inl e \<Longrightarrow> \<not> IsNotFound e \<Longrightarrow> callFailed api e"
  "getManagedCluster api name = Inl e \<Longrightarrow> \<not> IsNotFound e \<Longrightarrow> callFailed api e"
  "patchManagedCluster api cluster = Some e \<Longrightarrow> callFailed api e"
  "patchClusterDeployment api deployment = Some e \<Longrightarrow> callFailed api e"
  "AutoImportSecretLister api ns name = Inl e \<Longrightarrow> \<not> IsNotFound e \<Longrightarrow> callFailed api e"
  "kubeClientGetSecret api ns name = Inl e \<Longrightarrow> callFailed api e"
  "GenerateClientFromSecret api secret = Inl e \<Longrightarrow> callFailed api e"
  "ImportSecretLister api ns name = Inl e \<Longrightarrow> \<not> IsNotFound e \<Longrightarrow> callFailed api e"
  "KlusterletWorkLister api ns = Inl e \<Longrightarrow> callFailed api e"
  unfolding callFailed_def by blast+

lemma setCreatedViaAnnotation_error:
  "fst (setCreatedViaAnnotation k api deployment cluster) = Some e \<Longrightarrow> callFailed api e"
  by (auto simp: setCreatedViaAnnotation_def Let_def callFailed_intros(3)
      split: prod.splits option.splits if_splits)

lemma removeImportFinalizer_error:
  "fst (removeImportFinalizer k api deployment) = Some e \<Longrightarrow> callFailed api e"
  by (auto simp: removeImportFinalizer_def Let_def callFailed_intros(4)
      split: option.splits if_splits)

lemma reconcileInstalled_cases:
  "(\<exists>hiveClient importSecret.
      autoImportSecretAbsent k api clusterName \<and>
      remoteClientReady api clusterName deployment hiveClient \<and>
      ImportSecretLister api clusterName (clusterName @ ''-'' @ ImportSecretNameSuffix k) = Inr importSecret \<and>
      klusterletWorkCount k api clusterName = Some 2) \<or>
   (snd (reconcileInstalled k api clusterName deployment) = [] \<and>
    quietOutcome api (fst (reconcileInstalled k api clusterName deployment)))"
proof (cases "AutoImportSecretLister api clusterName (AutoImportSecretName k)")
  case (Inr s)
  then show ?thesis by (simp add: reconcileInstalled_def quietOutcome_def)
next
  case (Inl err)
  note auto = this
  show ?thesis
  proof (cases "IsNotFound err")
    case False
    with auto show ?thesis
      by (simp add: reconcileInstalled_def quietOutcome_def callFailed_intros(5))
  next
    case True
    note nf = this
    then have absent: "autoImportSecretAbsent k api clusterName"
      using auto by (simp add: autoImportSecretAbsent_def)
    show ?thesis
    proof (cases "ClusterMetadata (Spec deployment)")
      case None
      with auto nf show ?thesis by (simp add: reconcileInstalled_def quietOutcome_def)
    next
      case (Some md)
      note meta = this
      show ?thesis
      proof (cases "kubeClientGetSecret api clusterName (AdminKubeconfigSecretRef md)")
        case (Inl e)
        with auto nf meta show ?thesis
          by (simp add: reconcileInstalled_def quietOutcome_def callFailed_intros(6))
      next
        case (Inr hs)
        note hive = this
        show ?thesis
        proof (cases "GenerateClientFromSecret api hs")
          case (Inl e)
          with auto nf meta hive show ?thesis
            by (simp add: reconcileInstalled_def quietOutcome_def callFailed_intros(7))
        next
          case (Inr hc)
          note client = this
          then have ready: "remoteClientReady api clusterName deployment hc"
            using meta hive by (simp add: remoteClientReady_def)
          show ?thesis
          proof (cases "ImportSecretLister api clusterName (clusterName @ ''-'' @ ImportSecretNameSuffix k)")
            case (Inl e)
            with auto nf meta hive client show ?thesis
              by (simp add: reconcileInstalled_def quietOutcome_def callFailed_intros(8))
          next
            case (Inr s)
            note sec = this
            show ?thesis
            proof (cases "KlusterletWorkLister api clusterName")
              case (Inl e)
              with auto nf meta hive client sec show ?thesis
                by (simp add: reconcileInstalled_def quietOutcome_def callFailed_intros(9))
            next
              case (Inr works)
              show ?thesis
              proof (cases "length (filter (workSelector k) works) = 2")
                case True
                with Inr have "klusterletWorkCount k api clusterName = Some 2"
                  by (simp add: klusterletWorkCount_def)
                with absent ready sec show ?thesis by blast
              next
                case False
                with auto nf meta hive client sec Inr show ?thesis
                  by (simp add: reconcileInstalled_def quietOutcome_def Let_def)
              qed
            qed
          qed
        qed
      qed
    qed
  qed
qed

lemma Reconcile_cases:
  "(\<exists>deployment cluster acts hiveClient importSecret.
      readyToImport k api clusterName deployment cluster acts hiveClient importSecret) \<or>
   (importsAttempted (snd (Reconcile k api clusterName)) = [] \<and>
    conditionsWritten (snd (Reconcile k api clusterName)) = [] \<and>
    quietOutcome api (fst (Reconcile k api clusterName)))"
proof (cases "getClusterDeployment api clusterName clusterName")
  case (Inl err)
  then show ?thesis
    by (simp add: Reconcile_def quietOutcome_def callFailed_intros(1))
next
  case (Inr d)
  note cd = this
  show ?thesis
  proof (cases "IsZero (DeletionTimestamp d)")
    case False
    obtain e d' a where r: "removeImportFinalizer k api d = (e, d', a)"
      by (cases "removeImportFinalizer k api d") auto
    have "importsAttempted a = []" "conditionsWritten a = []"
      using removeImportFinalizer_quiet [of k api d] r by simp_all
    moreover have "quietOutcome api (Returned (emptyResult, map_option Plain e))"
      using removeImportFinalizer_error [of k api d] r
      by (cases e) (auto simp: quietOutcome_def)
    ultimately show ?thesis
      using cd False r by (simp add: Reconcile_def)
  next
    case True
    note live = this
    show ?thesis
    proof (cases "getManagedCluster api clusterName")
      case (Inl err)
      with cd live show ?thesis
        by (simp add: Reconcile_def quietOutcome_def callFailed_intros(2))
    next
      case (Inr c)
      note mc = this
      show ?thesis
      proof (cases "Installed (Spec d) \<and> \<not> unclaimed d")
        case False
        with cd live mc show ?thesis
          by (auto simp: Reconcile_def quietOutcome_def unclaimed_def split: option.splits)
      next
        case True
        note inst = this
        obtain e c' a where r: "setCreatedViaAnnotation k api d c = (e, c', a)"
          by (cases "setCreatedViaAnnotation k api d c") auto
        have quiet: "importsAttempted a = []" "conditionsWritten a = []"
          using setCreatedViaAnnotation_quiet [of k api d c] r by simp_all
        show ?thesis
        proof (cases e)
          case (Some err)
          then have "callFailed api err"
            using setCreatedViaAnnotation_error [of k api d c err] r by simp
          with cd live mc inst r Some quiet show ?thesis
            by (auto simp: Reconcile_def quietOutcome_def unclaimed_def split: option.splits)
        next
          case None
          then have g: "gatesPassed k api clusterName d c a"
            using cd live mc inst r by (simp add: gatesPassed_def)
          from reconcileInstalled_cases [of k api clusterName d]
          show ?thesis
          proof
            assume "\<exists>hiveClient importSecret.
              autoImportSecretAbsent k api clusterName \<and>
              remoteClientReady api clusterName d hiveClient \<and>
              ImportSecretLister api clusterName (clusterName @ ''-'' @ ImportSecretNameSuffix k) = Inr importSecret \<and>
              klusterletWorkCount k api clusterName = Some 2"
            with g show ?thesis unfolding readyToImport_def by blast
          next
            assume q: "snd (reconcileInstalled k api clusterName d) = [] \<and>
              quietOutcome api (fst (reconcileInstalled k api clusterName d))"
            then show ?thesis
              by (cases "reconcileInstalled k api clusterName d")
                (simp add: Reconcile_gatesPassed [OF g] quiet)
          qed
        qed
      qed
    qed
  qed
qed

lemma readyToImport_present:
  "readyToImport k api clusterName deployment cluster acts hiveClient importSecret \<Longrightarrow>
   \<not> dependencyAbsent k api clusterName"
  by (auto simp: readyToImport_def gatesPassed_def dependencyAbsent_def installRecordMissing_def
      clusterRecordMissing_def notInstalledOrUnclaimed_def autoImportSecretPresent_def
      autoImportSecretAbsent_def importSecretMissing_def workCountNotTwo_def
      split: sum.splits)

lemma Reconcile_ready_outcome:
  assumes "readyToImport k api clusterName deployment cluster acts hiveClient importSecret"
  shows "fst (Reconcile k api clusterName) = Returned (emptyResult, None) \<or>
         (\<exists>es. fst (Reconcile k api clusterName) = Returned (emptyResult, Some (Aggregate es)))"
  unfolding Reconcile_ready [OF assms] reconcileImport_eq
  by (simp add: Let_def split: option.splits)

text \<open>
  C6, as the claim states it: in every state in which a readiness dependency is absent
  the run returns no error, an error being returned only once all the preconditions
  hold and never for mere absence. With the payload secret missing and the construction
  of the client failing, the run returns the error of the construction; with no
  labelled work and the credential secret not found, it returns the not-found error.
\<close>

theorem Reconcile_absence_counterexample:
  "importSecretMissing specConstants
     (c1API\<lparr>GenerateClientFromSecret := \<lambda>secret. Inl (ApiError False ''invalid kubeconfig''),
            ImportSecretLister := \<lambda>ns name. Inl notFound\<rparr>) ''c1'' \<and>
   dependencyAbsent specConstants
     (c1API\<lparr>GenerateClientFromSecret := \<lambda>secret. Inl (ApiError False ''invalid kubeconfig''),
            ImportSecretLister := \<lambda>ns name. Inl notFound\<rparr>) ''c1'' \<and>
   fst (Reconcile specConstants
     (c1API\<lparr>GenerateClientFromSecret := \<lambda>secret. Inl (ApiError False ''invalid kubeconfig''),
            ImportSecretLister := \<lambda>ns name. Inl notFound\<rparr>) ''c1'') =
     Returned (emptyResult, Some (Plain (ApiError False ''invalid kubeconfig''))) \<and>
   workCountNotTwo specConstants
     (c1API\<lparr>kubeClientGetSecret := \<lambda>ns name. Inl notFound,
            KlusterletWorkLister := \<lambda>ns. Inr []\<rparr>) ''c1'' \<and>
   fst (Reconcile specConstants
     (c1API\<lparr>kubeClientGetSecret := \<lambda>ns name. Inl notFound,
            KlusterletWorkLister := \<lambda>ns. Inr []\<rparr>) ''c1'') =
     Returned (emptyResult, Some (Plain notFound))"
proof -
  let ?a = "c1API\<lparr>GenerateClientFromSecret := \<lambda>secret. Inl (ApiError False ''invalid kubeconfig''),
            ImportSecretLister := \<lambda>ns name. Inl notFound\<rparr>"
  let ?b = "c1API\<lparr>kubeClientGetSecret := \<lambda>ns name. Inl notFound,
            KlusterletWorkLister := \<lambda>ns. Inr []\<rparr>"
  have ga: "gatesPassed specConstants ?a ''c1'' c1Deployment c1Cluster c1Acts"
    by (rule c1_gates) simp_all
  have gb: "gatesPassed specConstants ?b ''c1'' c1Deployment c1Cluster c1Acts"
    by (rule c1_gates) simp_all
  have ia: "reconcileInstalled specConstants ?a ''c1'' c1Deployment =
      (Returned (emptyResult, Some (Plain (ApiError False ''invalid kubeconfig''))), [])"
    by (simp add: reconcileInstalled_def c1API_def notFound_def c1Deployment_def c1Spec_def
        mkDeployment_def)
  have ib: "reconcileInstalled specConstants ?b ''c1'' c1Deployment =
      (Returned (emptyResult, Some (Plain notFound)), [])"
    by (simp add: reconcileInstalled_def c1API_def notFound_def c1Deployment_def c1Spec_def
        mkDeployment_def)
  have ma: "importSecretMissing specConstants ?a ''c1''"
    by (simp add: importSecretMissing_def notFound_def)
  have nb: "workCountNotTwo specConstants ?b ''c1''"
    by (simp add: workCountNotTwo_def klusterletWorkCount_def)
  show ?thesis
    using ma nb by (simp add: Reconcile_gatesPassed [OF ga] Reconcile_gatesPassed [OF gb] ia ib
        dependencyAbsent_def)
qed

text \<open>
  C6, amended. A missing install record returns no error. With the install record read
  and not being deleted, a missing cluster record, an install record not installed and
  an unclaimed pool claim return no error. Past those gates and the annotation, a
  present auto-import secret returns no error; and once the credential secret is read
  and the client built, a missing payload secret and a count of labelled works other
  than two return no error. In every state with an absent dependency the run attempts
  no import and writes no condition, and it panics, returns no error, or returns the
  error of a failing call that came before the gate of the absent dependency. A single
  error returned is always the error of a failing call: a read that failed otherwise
  than by not finding the object, a patch, the read of the credential secret (not
  finding it included), the construction of the client, the listing of the works. An
  aggregate is returned only when no dependency is absent. No run asks for a requeue.
\<close>

theorem Reconcile_absent_dependency:
  "(installRecordMissing api clusterName \<longrightarrow>
      Reconcile k api clusterName = (Returned (emptyResult, None), [])) \<and>
   (getClusterDeployment api clusterName clusterName = Inr deployment \<and>
    IsZero (DeletionTimestamp deployment) \<and>
    (clusterRecordMissing api clusterName \<or>
     getManagedCluster api clusterName = Inr cluster \<and>
     (\<not> Installed (Spec deployment) \<or> unclaimed deployment)) \<longrightarrow>
      Reconcile k api clusterName = (Returned (emptyResult, None), [])) \<and>
   (gatesPassed k api clusterName deployment cluster acts \<and>
    autoImportSecretPresent k api clusterName \<longrightarrow>
      Reconcile k api clusterName = (Returned (emptyResult, None), acts)) \<and>
   (gatesPassed k api clusterName deployment cluster acts \<and>
    autoImportSecretAbsent k api clusterName \<and>
    remoteClientReady api clusterName deployment hiveClient \<and>
    (importSecretMissing k api clusterName \<or>
     ImportSecretLister api clusterName (clusterName @ ''-'' @ ImportSecretNameSuffix k) =
       Inr importSecret \<and>
     workCountNotTwo k api clusterName) \<longrightarrow>
      Reconcile k api clusterName = (Returned (emptyResult, None), acts)) \<and>
   (dependencyAbsent k api clusterName \<longrightarrow>
      importsAttempted (snd (Reconcile k api clusterName)) = [] \<and>
      conditionsWritten (snd (Reconcile k api clusterName)) = [] \<and>
      (fst (Reconcile k api clusterName) = Panicked \<or>
       fst (Reconcile k api clusterName) = Returned (emptyResult, None) \<or>
       (\<exists>e. fst (Reconcile k api clusterName) = Returned (emptyResult, Some (Plain e)) \<and>
            callFailed api e))) \<and>
   (\<forall>res e. fst (Reconcile k api clusterName) = Returned (res, Some (Plain e)) \<longrightarrow>
      res = emptyResult \<and> callFailed api e) \<and>
   (\<forall>res es. fst (Reconcile k api clusterName) = Returned (res, Some (Aggregate es)) \<longrightarrow>
      res = emptyResult \<and> \<not> dependencyAbsent k api clusterName)"
proof (intro conjI impI allI)
  assume "installRecordMissing api clusterName"
  then show "Reconcile k api clusterName = (Returned (emptyResult, None), [])"
    by (auto simp: installRecordMissing_def Reconcile_def split: sum.splits)
next
  assume "getClusterDeployment api clusterName clusterName = Inr deployment \<and>
    IsZero (DeletionTimestamp deployment) \<and>
    (clusterRecordMissing api clusterName \<or>
     getManagedCluster api clusterName = Inr cluster \<and>
     (\<not> Installed (Spec deployment) \<or> unclaimed deployment))"
  then show "Reconcile k api clusterName = (Returned (emptyResult, None), [])"
    by (auto simp: clusterRecordMissing_def Reconcile_def unclaimed_def split: sum.splits)
next
  assume h: "gatesPassed k api clusterName deployment cluster acts \<and>
    autoImportSecretPresent k api clusterName"
  then have g: "gatesPassed k api clusterName deployment cluster acts" by simp
  from h show "Reconcile k api clusterName = (Returned (emptyResult, None), acts)"
    by (simp add: Reconcile_gatesPassed [OF g] reconcileInstalled_auto_import)
next
  assume h: "gatesPassed k api clusterName deployment cluster acts \<and>
    autoImportSecretAbsent k api clusterName \<and>
    remoteClientReady api clusterName deployment hiveClient \<and>
    (importSecretMissing k api clusterName \<or>
     ImportSecretLister api clusterName (clusterName @ ''-'' @ ImportSecretNameSuffix k) =
       Inr importSecret \<and>
     workCountNotTwo k api clusterName)"
  then have g: "gatesPassed k api clusterName deployment cluster acts" by simp
  from h have "reconcileInstalled k api clusterName deployment = (Returned (emptyResult, None), [])"
    by (blast intro: reconcileInstalled_import_missing reconcileInstalled_not_two)
  then show "Reconcile k api clusterName = (Returned (emptyResult, None), acts)"
    by (simp add: Reconcile_gatesPassed [OF g])
next
  assume "dependencyAbsent k api clusterName"
  then have q: "importsAttempted (snd (Reconcile k api clusterName)) = [] \<and>
      conditionsWritten (snd (Reconcile k api clusterName)) = [] \<and>
      quietOutcome api (fst (Reconcile k api clusterName))"
    using Reconcile_cases [of k api clusterName] readyToImport_present by blast
  then show "importsAttempted (snd (Reconcile k api clusterName)) = []"
    and "conditionsWritten (snd (Reconcile k api clusterName)) = []"
    and "fst (Reconcile k api clusterName) = Panicked \<or>
       fst (Reconcile k api clusterName) = Returned (emptyResult, None) \<or>
       (\<exists>e. fst (Reconcile k api clusterName) = Returned (emptyResult, Some (Plain e)) \<and>
            callFailed api e)"
    by (simp_all add: quietOutcome_def)
next
  fix res e
  assume p: "fst (Reconcile k api clusterName) = Returned (res, Some (Plain e))"
  from Reconcile_cases [of k api clusterName]
  have "res = emptyResult \<and> callFailed api e"
  proof
    assume "\<exists>deployment cluster acts hiveClient importSecret.
      readyToImport k api clusterName deployment cluster acts hiveClient importSecret"
    then obtain d c a hc s where "readyToImport k api clusterName d c a hc s" by blast
    from Reconcile_ready_outcome [OF this] p show ?thesis by auto
  next
    assume "importsAttempted (snd (Reconcile k api clusterName)) = [] \<and>
      conditionsWritten (snd (Reconcile k api clusterName)) = [] \<and>
      quietOutcome api (fst (Reconcile k api clusterName))"
    with p show ?thesis by (auto simp: quietOutcome_def)
  qed
  then show "res = emptyResult" and "callFailed api e" by simp_all
next
  fix res es
  assume p: "fst (Reconcile k api clusterName) = Returned (res, Some (Aggregate es))"
  from Reconcile_cases [of k api clusterName]
  have "res = emptyResult \<and> \<not> dependencyAbsent k api clusterName"
  proof
    assume "\<exists>deployment cluster acts hiveClient importSecret.
      readyToImport k api clusterName deployment cluster acts hiveClient importSecret"
    then obtain d c a hc s where r: "readyToImport k api clusterName d c a hc s" by blast
    from Reconcile_ready_outcome [OF r] p readyToImport_present [OF r] show ?thesis by auto
  next
    assume "importsAttempted (snd (Reconcile k api clusterName)) = [] \<and>
      conditionsWritten (snd (Reconcile k api clusterName)) = [] \<and>
      quietOutcome api (fst (Reconcile k api clusterName))"
    with p show ?thesis by (auto simp: quietOutcome_def)
  qed
  then show "res = emptyResult" and "\<not> dependencyAbsent k api clusterName" by simp_all
qed

theorem Reconcile_absent_dependency_witness:
  "Reconcile specConstants c1API ''c2'' = (Returned (emptyResult, None), []) \<and>
   Reconcile specConstants (c1API\<lparr>ImportSecretLister := \<lambda>ns name. Inl notFound\<rparr>) ''c1'' =
     (Returned (emptyResult, None), c1Acts) \<and>
   Reconcile specConstants
     (c1API\<lparr>AutoImportSecretLister := \<lambda>ns name. Inr (mkSecret name ns Map.empty Map.empty)\<rparr>) ''c1'' =
     (Returned (emptyResult, None), c1Acts) \<and>
   importsAttempted (snd (Reconcile specConstants
     (c1API\<lparr>GenerateClientFromSecret := \<lambda>secret. Inl (ApiError False ''invalid kubeconfig''),
            ImportSecretLister := \<lambda>ns name. Inl notFound\<rparr>) ''c1'')) = []"
proof -
  let ?missing = "c1API\<lparr>ImportSecretLister := \<lambda>ns name. Inl notFound\<rparr>"
  let ?auto = "c1API\<lparr>AutoImportSecretLister := \<lambda>ns name. Inr (mkSecret name ns Map.empty Map.empty)\<rparr>"
  let ?bad = "c1API\<lparr>GenerateClientFromSecret := \<lambda>secret. Inl (ApiError False ''invalid kubeconfig''),
            ImportSecretLister := \<lambda>ns name. Inl notFound\<rparr>"
  have c2: "installRecordMissing c1API ''c2''"
    by (simp add: installRecordMissing_def c1API_def notFound_def)
  have gm: "gatesPassed specConstants ?missing ''c1'' c1Deployment c1Cluster c1Acts"
    by (rule c1_gates) simp_all
  have am: "autoImportSecretAbsent specConstants ?missing ''c1''"
    by (rule c1_no_auto_import) simp
  have cm: "remoteClientReady ?missing ''c1'' c1Deployment c1Client"
    by (rule c1_client) simp_all
  have mm: "importSecretMissing specConstants ?missing ''c1''"
    by (simp add: importSecretMissing_def notFound_def)
  have ga: "gatesPassed specConstants ?auto ''c1'' c1Deployment c1Cluster c1Acts"
    by (rule c1_gates) simp_all
  have pa: "autoImportSecretPresent specConstants ?auto ''c1''"
    by (simp add: autoImportSecretPresent_def)
  have db: "dependencyAbsent specConstants ?bad ''c1''"
    by (simp add: dependencyAbsent_def importSecretMissing_def notFound_def)
  from Reconcile_absent_dependency [of c1API "''c2''" specConstants] c2
  have one: "Reconcile specConstants c1API ''c2'' = (Returned (emptyResult, None), [])"
    by blast
  from Reconcile_absent_dependency [of ?missing "''c1''" specConstants c1Deployment c1Cluster
      c1Acts c1Client] gm am cm mm
  have two: "Reconcile specConstants ?missing ''c1'' = (Returned (emptyResult, None), c1Acts)"
    by blast
  from Reconcile_absent_dependency [of ?auto "''c1''" specConstants c1Deployment c1Cluster c1Acts] ga pa
  have three: "Reconcile specConstants ?auto ''c1'' = (Returned (emptyResult, None), c1Acts)"
    by blast
  from Reconcile_absent_dependency [of ?bad "''c1''" specConstants] db
  have four: "importsAttempted (snd (Reconcile specConstants ?bad ''c1'')) = []"
    by blast
  from one two three four show ?thesis by blast
qed

end
